theory Spec2Isabelle
  imports Complex_Main "HOL-Library.Char_ord" "HOL-Library.List_Lexorder"
    "HOL-Library.Product_Lexorder"
begin

section \<open>Common vocabulary: exceptions and path helpers\<close>

text \<open>
  The two scripts of the repository (\<^verbatim>\<open>retro/tables/generate_t_indep_tables.py\<close> and
  \<^verbatim>\<open>retro/utils/fit_prior_dist.py\<close>) are embedded as pure functions. An exception
  raised by the Python code is a value of \<open>exn\<close>; a function that may raise returns
  \<open>exn + 'a\<close> (\<open>Inl\<close> the exception), or the state at the raise together with
  \<open>exn option\<close>.
\<close>

datatype exn =
    ValueError
  | TypeError
  | AttributeError
  | AssertionError
  | IndexError
  | KeyError
  | IOError
  | OtherError string

subsection \<open>String methods and \<^verbatim>\<open>os.path\<close> functions used by the scripts\<close>

definition endswith :: "string \<Rightarrow> string \<Rightarrow> bool" where
  "endswith s suffix = (length suffix \<le> length s \<and> drop (length s - length suffix) s = suffix)"

definition startswith :: "string \<Rightarrow> string \<Rightarrow> bool" where
  "startswith s pre = (take (length pre) s = pre)"

text \<open>\<^verbatim>\<open>s.rstrip(chars)\<close> removes every trailing character that occurs in \<open>chars\<close>.\<close>

definition rstrip :: "string \<Rightarrow> string \<Rightarrow> string" where
  "rstrip s chars = rev (dropWhile (\<lambda>c. c \<in> set chars) (rev s))"

definition isspace :: "char \<Rightarrow> bool" where
  "isspace c = (c \<in> set [CHR '' '', CHR 0x09, CHR 0x0A, CHR 0x0B, CHR 0x0C, CHR 0x0D])"

text \<open>\<^verbatim>\<open>s.strip()\<close>: leading and trailing whitespace removed.\<close>

definition strip :: "string \<Rightarrow> string" where
  "strip s = rev (dropWhile isspace (rev (dropWhile isspace s)))"

definition lower_char :: "char \<Rightarrow> char" where
  "lower_char c =
     (case map_of (zip ''ABCDEFGHIJKLMNOPQRSTUVWXYZ'' ''abcdefghijklmnopqrstuvwxyz'') c of
        None \<Rightarrow> c
      | Some d \<Rightarrow> d)"

definition lower :: "string \<Rightarrow> string" where
  "lower s = map lower_char s"

text \<open>\<^verbatim>\<open>posixpath.join(a, b)\<close> for two components.\<close>

definition join :: "string \<Rightarrow> string \<Rightarrow> string" where
  "join a b =
     (if startswith b ''/'' then b
      else if a = [] \<or> endswith a ''/'' then a @ b
      else a @ ''/'' @ b)"

text \<open>
  \<^verbatim>\<open>posixpath.basename\<close> and \<^verbatim>\<open>posixpath.dirname\<close>: the path is cut after its last
  slash; \<open>dirname\<close> then drops the trailing slashes of the head unless the head consists
  of slashes only.
\<close>

definition basename :: "string \<Rightarrow> string" where
  "basename p = rev (takeWhile (\<lambda>c. c \<noteq> CHR ''/'') (rev p))"

definition dirname :: "string \<Rightarrow> string" where
  "dirname p =
     (let head = rev (dropWhile (\<lambda>c. c \<noteq> CHR ''/'') (rev p))
      in if head \<noteq> [] \<and> head \<noteq> replicate (length head) CHR ''/''
         then rstrip head ''/'' else head)"

definition quoted :: "string \<Rightarrow> string" where
  "quoted p = CHR 0x22 # p @ [CHR 0x22]"

section \<open>Time-independent tables (\<^verbatim>\<open>generate_t_indep_tables.py\<close>)\<close>

subsection \<open>Arrays\<close>

text \<open>
  A numpy array of rank 5 or 4 is its shape together with its entries as nested lists,
  outermost axis first. The shape is kept beside the entries because nested lists alone
  forget the inner extents of an array with an empty axis. The axes of a table are
  (r, costheta, t, costhetadir, deltaphidir). Entries are of any type with a
  commutative addition and a zero; rounding of floating-point sums is not modelled.
\<close>

record 'a ndarray5 =
  shape5 :: "nat \<times> nat \<times> nat \<times> nat \<times> nat"
  data5 :: "'a list list list list list"

record 'a ndarray4 =
  shape4 :: "nat \<times> nat \<times> nat \<times> nat"
  data4 :: "'a list list list list"

text \<open>The entries agree with the shape (every numpy array does).\<close>

definition wf5 :: "'a ndarray5 \<Rightarrow> bool" where
  "wf5 A =
     (case shape5 A of (n_r, n_ct, n_t, n_ctd, n_dpd) \<Rightarrow>
        length (data5 A) = n_r \<and>
        (\<forall>a \<in> set (data5 A). length a = n_ct \<and>
          (\<forall>b \<in> set a. length b = n_t \<and>
            (\<forall>c \<in> set b. length c = n_ctd \<and>
              (\<forall>d \<in> set c. length d = n_dpd)))))"

definition wf4 :: "'a ndarray4 \<Rightarrow> bool" where
  "wf4 A =
     (case shape4 A of (n_r, n_ct, n_ctd, n_dpd) \<Rightarrow>
        length (data4 A) = n_r \<and>
        (\<forall>a \<in> set (data4 A). length a = n_ct \<and>
          (\<forall>c \<in> set a. length c = n_ctd \<and>
            (\<forall>d \<in> set c. length d = n_dpd))))"

text \<open>The slice \<^verbatim>\<open>xs[1:-1]\<close>: everything but the first and the last element.\<close>

definition slice_1_m1 :: "'a list \<Rightarrow> 'a list" where
  "slice_1_m1 xs = butlast (tl xs)"

text \<open>\<^verbatim>\<open>table[1:-1, 1:-1, 1:-1, 1:-1, 1:-1]\<close>: the slice taken along every axis.\<close>

definition trim5 :: "'a ndarray5 \<Rightarrow> 'a ndarray5" where
  "trim5 A =
     (case shape5 A of (n_r, n_ct, n_t, n_ctd, n_dpd) \<Rightarrow>
        \<lparr> shape5 = (n_r - 2, n_ct - 2, n_t - 2, n_ctd - 2, n_dpd - 2),
          data5 =
            map (\<lambda>a. map (\<lambda>b. map (\<lambda>c. map slice_1_m1 (slice_1_m1 c)) (slice_1_m1 b))
                       (slice_1_m1 a))
                (slice_1_m1 (data5 A)) \<rparr>)"

text \<open>Entry-wise sum of two matrices of equal shape.\<close>

definition add_mat :: "('a::comm_monoid_add) list list \<Rightarrow> 'a list list \<Rightarrow> 'a list list" where
  "add_mat m1 m2 = map2 (map2 (+)) m1 m2"

text \<open>
  \<^verbatim>\<open>A.sum(axis=2)\<close>: for every (r, costheta), the matrices along the time axis are
  added up, starting from the zero matrix of shape (n_costhetadir, n_deltaphidir).
\<close>

definition sum_axis2 :: "('a::comm_monoid_add) ndarray5 \<Rightarrow> 'a ndarray4" where
  "sum_axis2 A =
     (case shape5 A of (n_r, n_ct, n_t, n_ctd, n_dpd) \<Rightarrow>
        \<lparr> shape4 = (n_r, n_ct, n_ctd, n_dpd),
          data4 = map (map (foldl add_mat (replicate n_ctd (replicate n_dpd 0)))) (data5 A) \<rparr>)"

subsection \<open>The file system and the calls the script makes\<close>

text \<open>
  A file holds either a 4D array written by \<^verbatim>\<open>np.save\<close> or anything else. The state
  of the world is the files, the directories and the log of the calls made so far (most
  recent last): messages printed, directories made, tables loaded, arrays saved.
\<close>

datatype 'a fcontent = Npy4 "'a ndarray4" | Opaque string

datatype 'a call =
    Print string
  | Mkdir string
  | LoadClsim string
  | LoadCkv string
  | NpSave string "'a ndarray4"

record 'a world =
  files :: "string \<Rightarrow> 'a fcontent option"
  dirs :: "string set"
  calls :: "'a call list"

definition isfile :: "'a world \<Rightarrow> string \<Rightarrow> bool" where
  "isfile w p = (files w p \<noteq> None)"

definition isdir :: "'a world \<Rightarrow> string \<Rightarrow> bool" where
  "isdir w p = (p \<in> dirs w)"

definition print :: "string \<Rightarrow> 'a world \<Rightarrow> 'a world" where
  "print msg w = w\<lparr>calls := calls w @ [Print msg]\<rparr>"

text \<open>
  Modelled from the spec: \<^verbatim>\<open>retro.utils.misc.mkdir\<close> is not among the sources; it is
  taken to make the directory and to leave every file as it is.
\<close>

definition mkdir :: "string \<Rightarrow> 'a world \<Rightarrow> 'a world" where
  "mkdir d w = w\<lparr>dirs := insert d (dirs w), calls := calls w @ [Mkdir d]\<rparr>"

text \<open>\<^verbatim>\<open>np.save(fpath, arr)\<close> (the paths used end in \<^verbatim>\<open>.npy\<close> already).\<close>

definition np_save :: "string \<Rightarrow> 'a ndarray4 \<Rightarrow> 'a world \<Rightarrow> 'a world" where
  "np_save fpath arr w =
     w\<lparr>files := (files w)(fpath \<mapsto> Npy4 arr), calls := calls w @ [NpSave fpath arr]\<rparr>"

text \<open>
  The functions the script imports from modules that are not among the sources are
  parameters: \<^verbatim>\<open>expand\<close> (of \<^verbatim>\<open>retro.utils.misc\<close>), and the two loaders, each
  giving the 5D array stored under the key \<^verbatim>\<open>'table'\<close> (\<^verbatim>\<open>'ckv_table'\<close>) of the
  dictionary it returns, or the exception it raises.
\<close>

record 'a deps =
  expand :: "string \<Rightarrow> string"
  load_clsim_table_minimal :: "string \<Rightarrow> exn + 'a ndarray5"
  load_ckv_table :: "string \<Rightarrow> exn + 'a ndarray5"

text \<open>The argument \<^verbatim>\<open>kind\<close>: one string, or an iterable of strings.\<close>

datatype kind_arg = OneKind string | Kinds "string list"

definition kinds_of :: "kind_arg \<Rightarrow> string list" where
  "kinds_of kind =
     (let kind' = (case kind of OneKind k \<Rightarrow> [k] | Kinds ks \<Rightarrow> ks)
      in map (\<lambda>k. lower (strip k)) kind')"

subsection \<open>\<^verbatim>\<open>generate_time_indep_tables\<close>\<close>

text \<open>Lines 65-71: the output directory, when the caller gives none.\<close>

definition resolve_outdir :: "'a world \<Rightarrow> string \<Rightarrow> string option \<Rightarrow> string option" where
  "resolve_outdir w table outdir =
     (case outdir of
        Some d \<Rightarrow> Some d
      | None \<Rightarrow>
          if isdir w table then Some table
          else if endswith table ''.npy'' then Some (dirname table)
          else if endswith table ''.fits'' then Some (rstrip table ''.fits'')
          else None)"

text \<open>
  Lines 61-62 and 73-85: the source table of each kind, where one is identified. The
  result is the pair (\<^verbatim>\<open>clsim_table_path\<close>, \<^verbatim>\<open>ckv_table_path\<close>), \<open>None\<close> as in the
  source.
\<close>

definition find_tables ::
  "'a world \<Rightarrow> string list \<Rightarrow> string \<Rightarrow> string option \<times> string option" where
  "find_tables w kinds table =
     (if isfile w table then
        (let table_basename = basename table
         in if table_basename = ''table.npy'' \<or> endswith table_basename ''.fits''
            then (Some table, None)
            else if table_basename = ''ckv_table.npy'' then (None, Some table)
            else (None, None))
      else if isdir w table then
        (if ''clsim'' \<in> set kinds \<and> isfile w (join table ''table.npy'')
         then Some table else None,
         if ''ckv'' \<in> set kinds \<and> isfile w (join table ''ckv_table.npy'')
         then Some table else None)
      else (None, None))"

text \<open>Lines 87-96 and 98-107: the messages about an output that exists already.\<close>

definition report_existing :: "string \<Rightarrow> bool \<Rightarrow> bool \<Rightarrow> string \<Rightarrow> 'a world \<Rightarrow> 'a world" where
  "report_existing name exists overwrite fpath w =
     (if exists then
        (if overwrite
         then print (''WARNING: '' @ name @ '' already exists, overwriting: '' @ quoted fpath) w
         else print (name @ '' already exists, not overwriting: '' @ quoted fpath) w)
      else w)"

text \<open>
  Lines 109-137: the CLSim table. The result is the world when the block ends and the
  exception raised in it, if any.
\<close>

definition clsim_block ::
  "('a::comm_monoid_add) deps \<Rightarrow> string option \<Rightarrow> string \<Rightarrow> string \<Rightarrow> 'a world
     \<Rightarrow> 'a world \<times> exn option" where
  "clsim_block dp clsim_table_path outdir t_indep_table_fpath w =
     (case clsim_table_path of
        None \<Rightarrow> (w, Some ValueError)
      | Some p \<Rightarrow>
          (let w1 = print (''generating t_indep_table at '' @ quoted p) w;
               w2 = mkdir outdir w1;
               w3 = w2\<lparr>calls := calls w2 @ [LoadClsim p]\<rparr>
           in case load_clsim_table_minimal dp p of
                Inl e \<Rightarrow> (w3, Some e)
              | Inr clsim_table \<Rightarrow>
                  (let t_indep_table = sum_axis2 (trim5 clsim_table)
                   in (np_save t_indep_table_fpath t_indep_table w3, None))))"

text \<open>Lines 139-167: the Cherenkov table.\<close>

definition ckv_block ::
  "('a::comm_monoid_add) deps \<Rightarrow> string option \<Rightarrow> string \<Rightarrow> string \<Rightarrow> 'a world
     \<Rightarrow> 'a world \<times> exn option" where
  "ckv_block dp ckv_table_path outdir t_indep_ckv_table_fpath w =
     (case ckv_table_path of
        None \<Rightarrow> (w, Some ValueError)
      | Some p \<Rightarrow>
          (let w1 = print (''generating t_indep_ckv_table at '' @ quoted p) w;
               w2 = mkdir outdir w1;
               w3 = w2\<lparr>calls := calls w2 @ [LoadCkv p]\<rparr>
           in case load_ckv_table dp p of
                Inl e \<Rightarrow> (w3, Some e)
              | Inr ckv_table \<Rightarrow>
                  (let t_indep_ckv_table = sum_axis2 ckv_table
                   in (np_save t_indep_ckv_table_fpath t_indep_ckv_table w3, None))))"

text \<open>
  The whole function. Every \<^verbatim>\<open>isfile\<close> and \<^verbatim>\<open>isdir\<close> test of the source comes before
  its first write, so all of them read the initial world \<open>w\<close>. When no output directory
  is given and none can be derived from the table's path, \<^verbatim>\<open>join(outdir, ...)\<close> at
  line 88 is applied to \<^verbatim>\<open>None\<close> and raises (a \<^verbatim>\<open>TypeError\<close> in Python 3). The
  timing messages printed under \<^verbatim>\<open>retro.DEBUG\<close> are left out.
\<close>

definition generate_time_indep_tables ::
  "('a::comm_monoid_add) deps \<Rightarrow> string \<Rightarrow> kind_arg \<Rightarrow> string option \<Rightarrow> bool \<Rightarrow> 'a world
     \<Rightarrow> 'a world \<times> exn option" where
  "generate_time_indep_tables dp table0 kind outdir0 overwrite w =
     (let kinds = kinds_of kind;
          table = expand dp table0;
          (clsim_table_path, ckv_table_path) = find_tables w kinds table
      in case resolve_outdir w table outdir0 of
           None \<Rightarrow> (w, Some TypeError)
         | Some outdir \<Rightarrow>
            (let t_indep_table_fpath = join outdir ''t_indep_table.npy'';
                 t_indep_table_exists = (''clsim'' \<in> set kinds \<and> isfile w t_indep_table_fpath);
                 w1 = report_existing ''t_indep_table'' t_indep_table_exists overwrite
                        t_indep_table_fpath w;
                 t_indep_ckv_table_fpath = join outdir ''t_indep_ckv_table.npy'';
                 t_indep_ckv_table_exists =
                   (''ckv'' \<in> set kinds \<and> isfile w t_indep_ckv_table_fpath);
                 w2 = report_existing ''t_indep_ckv_table'' t_indep_ckv_table_exists overwrite
                        t_indep_ckv_table_fpath w1;
                 (w3, err) =
                   (if ''clsim'' \<in> set kinds \<and> (overwrite \<or> \<not> t_indep_table_exists)
                    then clsim_block dp clsim_table_path outdir t_indep_table_fpath w2
                    else (w2, None))
             in case err of
                  Some e \<Rightarrow> (w3, Some e)
                | None \<Rightarrow>
                    (if ''ckv'' \<in> set kinds \<and> (overwrite \<or> \<not> t_indep_ckv_table_exists)
                     then ckv_block dp ckv_table_path outdir t_indep_ckv_table_fpath w3
                     else (w3, None))))"

subsection \<open>What the claims speak of\<close>

text \<open>
  The wording of the specification, "the same table with the time dimension summed out":
  \<open>A\<close> has the shape of \<open>T\<close> without the time axis, and each of its entries is the sum
  over all time bins of the corresponding entries of \<open>T\<close>.
\<close>

definition is_time_sum_of :: "('a::comm_monoid_add) ndarray4 \<Rightarrow> 'a ndarray5 \<Rightarrow> bool" where
  "is_time_sum_of A T =
     (case shape5 T of (n_r, n_ct, n_t, n_ctd, n_dpd) \<Rightarrow>
        shape4 A = (n_r, n_ct, n_ctd, n_dpd) \<and> wf4 A \<and>
        (\<forall>i<n_r. \<forall>j<n_ct. \<forall>k<n_ctd. \<forall>l<n_dpd.
           data4 A ! i ! j ! k ! l = (\<Sum>t<n_t. data5 T ! i ! j ! t ! k ! l)))"

text \<open>The calls a run has added to the log of the world it started in.\<close>

definition new_calls :: "'a world \<Rightarrow> 'a world \<Rightarrow> 'a call list" where
  "new_calls w w' = drop (length (calls w)) (calls w')"

text \<open>
  The work for one kind: loading its source table, and saving to its output path.
\<close>

fun clsim_work :: "string \<Rightarrow> 'a call \<Rightarrow> bool" where
  "clsim_work fpath (LoadClsim p) = True"
| "clsim_work fpath (NpSave p arr) = (p = fpath)"
| "clsim_work fpath c = False"

fun ckv_work :: "string \<Rightarrow> 'a call \<Rightarrow> bool" where
  "ckv_work fpath (LoadCkv p) = True"
| "ckv_work fpath (NpSave p arr) = (p = fpath)"
| "ckv_work fpath c = False"

fun is_print :: "'a call \<Rightarrow> bool" where
  "is_print (Print msg) = True"
| "is_print c = False"

text \<open>
  A small world for the closed examples: the directory \<^verbatim>\<open>tbl\<close> holds a CLSim table and
  a Cherenkov table, both of shape (3, 3, 3, 3, 3) with every entry 1.
\<close>

definition ones5 :: "int ndarray5" where
  "ones5 =
     (let n = Suc (Suc (Suc 0))
      in \<lparr> shape5 = (n, n, n, n, n),
           data5 = replicate n (replicate n (replicate n (replicate n (replicate n 1)))) \<rparr>)"

definition demo_deps :: "int deps" where
  "demo_deps =
     \<lparr> expand = (\<lambda>p. p),
       load_clsim_table_minimal = (\<lambda>p. if p = ''tbl'' then Inr ones5 else Inl IOError),
       load_ckv_table = (\<lambda>p. if p = ''tbl'' then Inr ones5 else Inl IOError) \<rparr>"

definition demo_world :: "int world" where
  "demo_world =
     \<lparr> files = [''tbl/table.npy'' \<mapsto> Opaque ''clsim'', ''tbl/ckv_table.npy'' \<mapsto> Opaque ''ckv''],
       dirs = {''tbl''},
       calls = [] \<rparr>"

text \<open>The same directory after an earlier run has left both outputs in it.\<close>

definition done_world :: "int world" where
  "done_world =
     demo_world\<lparr>files := (files demo_world)
       (''tbl/t_indep_table.npy'' \<mapsto> Opaque ''old'', ''tbl/t_indep_ckv_table.npy'' \<mapsto> Opaque ''old'')\<rparr>"

text \<open>A directory with a CLSim table only, and a world with nothing in it.\<close>

definition clsim_only_world :: "int world" where
  "clsim_only_world =
     \<lparr> files = [''tbl/table.npy'' \<mapsto> Opaque ''clsim''], dirs = {''tbl''}, calls = [] \<rparr>"

definition empty_world :: "int world" where
  "empty_world = \<lparr> files = Map.empty, dirs = {}, calls = [] \<rparr>"

subsection \<open>Slicing and summing\<close>

lemma add_mat_dims:
  assumes "length Z = d" "\<forall>r \<in> set Z. length r = e"
      and "length m = d" "\<forall>r \<in> set m. length r = e"
  shows "length (add_mat Z m) = d \<and> (\<forall>r \<in> set (add_mat Z m). length r = e)"
  using assms by (auto simp: add_mat_def set_zip)

lemma add_mat_nth:
  assumes "length Z = d" "\<forall>r \<in> set Z. length r = e"
      and "length m = d" "\<forall>r \<in> set m. length r = e"
      and "k < d" "l < e"
  shows "add_mat Z m ! k ! l = Z ! k ! l + m ! k ! l"
  using assms by (simp add: add_mat_def)

lemma foldl_add_mat_dims:
  assumes "length Z = d" "\<forall>r \<in> set Z. length r = e"
      and "\<forall>m \<in> set ms. length m = d \<and> (\<forall>r \<in> set m. length r = e)"
  shows "length (foldl add_mat Z ms) = d \<and> (\<forall>r \<in> set (foldl add_mat Z ms). length r = e)"
  using assms
proof (induction ms arbitrary: Z)
  case Nil
  then show ?case by simp
next
  case (Cons m ms)
  have "length (add_mat Z m) = d \<and> (\<forall>r \<in> set (add_mat Z m). length r = e)"
    using Cons.prems by (intro add_mat_dims) auto
  then show ?case using Cons.IH[of "add_mat Z m"] Cons.prems by simp
qed

lemma foldl_add_mat_nth:
  assumes "length Z = d" "\<forall>r \<in> set Z. length r = e"
      and "\<forall>m \<in> set ms. length m = d \<and> (\<forall>r \<in> set m. length r = e)"
      and "k < d" "l < e"
  shows "foldl add_mat Z ms ! k ! l = Z ! k ! l + (\<Sum>t < length ms. ms ! t ! k ! l)"
  using assms
proof (induction ms arbitrary: Z)
  case Nil
  then show ?case by simp
next
  case (Cons m ms)
  have dims: "length (add_mat Z m) = d \<and> (\<forall>r \<in> set (add_mat Z m). length r = e)"
    using Cons.prems by (intro add_mat_dims) auto
  have step: "add_mat Z m ! k ! l = Z ! k ! l + m ! k ! l"
    using Cons.prems by (intro add_mat_nth[where d = d and e = e]) auto
  have "foldl add_mat (add_mat Z m) ms ! k ! l
          = add_mat Z m ! k ! l + (\<Sum>t < length ms. ms ! t ! k ! l)"
    using Cons.IH[of "add_mat Z m"] dims Cons.prems by simp
  also have "\<dots> = Z ! k ! l + (m ! k ! l + (\<Sum>t < length ms. ms ! t ! k ! l))"
    by (simp add: step add.assoc)
  also have "m ! k ! l + (\<Sum>t < length ms. ms ! t ! k ! l)
          = (\<Sum>t < length (m # ms). (m # ms) ! t ! k ! l)"
    by (simp only: length_Cons sum.lessThan_Suc_shift nth_Cons_0 nth_Cons_Suc)
  finally show ?case by simp
qed

lemma sum_axis2_shape:
  "shape5 T = (n_r, n_ct, n_t, n_ctd, n_dpd) \<Longrightarrow> shape4 (sum_axis2 T) = (n_r, n_ct, n_ctd, n_dpd)"
  by (simp add: sum_axis2_def)

lemma sum_axis2_nth:
  assumes wf: "wf5 T" and sh: "shape5 T = (n_r, n_ct, n_t, n_ctd, n_dpd)"
      and i: "i < n_r" and j: "j < n_ct" and k: "k < n_ctd" and l: "l < n_dpd"
  shows "data4 (sum_axis2 T) ! i ! j ! k ! l = (\<Sum>t < n_t. data5 T ! i ! j ! t ! k ! l)"
proof -
  let ?ts = "data5 T ! i ! j"
  from wf sh i have a: "data5 T ! i \<in> set (data5 T)" "length (data5 T) = n_r"
    by (auto simp: wf5_def)
  with wf sh j have b: "?ts \<in> set (data5 T ! i)" "length (data5 T ! i) = n_ct"
    by (auto simp: wf5_def)
  with a wf sh have c: "length ?ts = n_t"
     "\<forall>m \<in> set ?ts. length m = n_ctd \<and> (\<forall>r \<in> set m. length r = n_dpd)"
    by (auto simp: wf5_def)
  have "data4 (sum_axis2 T) ! i ! j
          = foldl add_mat (replicate n_ctd (replicate n_dpd 0)) ?ts"
    using sh a b i j by (simp add: sum_axis2_def)
  also have "\<dots> ! k ! l = replicate n_ctd (replicate n_dpd 0) ! k ! l
                + (\<Sum>t < length ?ts. ?ts ! t ! k ! l)"
    using c k l by (intro foldl_add_mat_nth[where d = n_ctd and e = n_dpd]) auto
  finally show ?thesis using c k l by simp
qed

lemma sum_axis2_wf:
  assumes wf: "wf5 T"
  shows "wf4 (sum_axis2 T)"
proof -
  obtain n_r n_ct n_t n_ctd n_dpd where sh: "shape5 T = (n_r, n_ct, n_t, n_ctd, n_dpd)"
    by (cases "shape5 T") auto
  have "\<And>a b. a \<in> set (data5 T) \<Longrightarrow> b \<in> set a \<Longrightarrow>
     length (foldl add_mat (replicate n_ctd (replicate n_dpd 0)) b) = n_ctd \<and>
     (\<forall>r \<in> set (foldl add_mat (replicate n_ctd (replicate n_dpd 0)) b). length r = n_dpd)"
    using wf sh by (intro foldl_add_mat_dims) (auto simp: wf5_def)
  then show ?thesis using wf sh by (auto simp: wf4_def wf5_def sum_axis2_def)
qed

lemma slice_1_m1_length: "length (slice_1_m1 xs) = length xs - 2"
  by (simp add: slice_1_m1_def)

lemma slice_1_m1_nth:
  assumes "i < length xs - 2"
  shows "slice_1_m1 xs ! i = xs ! Suc i"
proof -
  have a: "i < length (butlast (tl xs))" using assms by simp
  have b: "i < length (tl xs)" using assms by simp
  have "butlast (tl xs) ! i = tl xs ! i" using a by (rule nth_butlast)
  also have "\<dots> = xs ! Suc i" using b by (rule nth_tl)
  finally show ?thesis by (simp only: slice_1_m1_def)
qed

lemma slice_1_m1_mem: "x \<in> set (slice_1_m1 xs) \<Longrightarrow> x \<in> set xs"
proof -
  assume "x \<in> set (slice_1_m1 xs)"
  then have "x \<in> set (tl xs)"
    unfolding slice_1_m1_def by (rule in_set_butlastD)
  then show "x \<in> set xs"
    by (cases xs) simp_all
qed

lemma trim5_shape:
  "shape5 T = (n_r, n_ct, n_t, n_ctd, n_dpd) \<Longrightarrow>
   shape5 (trim5 T) = (n_r - 2, n_ct - 2, n_t - 2, n_ctd - 2, n_dpd - 2)"
  by (simp add: trim5_def)

lemma trim5_wf:
  assumes "wf5 T"
  shows "wf5 (trim5 T)"
proof -
  obtain n_r n_ct n_t n_ctd n_dpd where sh: "shape5 T = (n_r, n_ct, n_t, n_ctd, n_dpd)"
    by (cases "shape5 T") auto
  show ?thesis
    using assms sh
    by (auto simp: wf5_def trim5_def slice_1_m1_length dest!: slice_1_m1_mem)
qed

lemma trim5_nth:
  assumes wf: "wf5 T" and sh: "shape5 T = (n_r, n_ct, n_t, n_ctd, n_dpd)"
      and i: "i < n_r - 2" and j: "j < n_ct - 2" and t: "t < n_t - 2"
      and k: "k < n_ctd - 2" and l: "l < n_dpd - 2"
  shows "data5 (trim5 T) ! i ! j ! t ! k ! l
           = data5 T ! Suc i ! Suc j ! Suc t ! Suc k ! Suc l"
proof -
  have a: "length (data5 T) = n_r" "data5 T ! Suc i \<in> set (data5 T)"
    using wf sh i by (auto simp: wf5_def)
  then have b: "length (data5 T ! Suc i) = n_ct" "data5 T ! Suc i ! Suc j \<in> set (data5 T ! Suc i)"
    using wf sh j by (auto simp: wf5_def)
  with a have c: "length (data5 T ! Suc i ! Suc j) = n_t"
      "data5 T ! Suc i ! Suc j ! Suc t \<in> set (data5 T ! Suc i ! Suc j)"
    using wf sh t by (auto simp: wf5_def)
  with a b have d: "length (data5 T ! Suc i ! Suc j ! Suc t) = n_ctd"
      "data5 T ! Suc i ! Suc j ! Suc t ! Suc k \<in> set (data5 T ! Suc i ! Suc j ! Suc t)"
    using wf sh k by (auto simp: wf5_def)
  with a b c have e: "length (data5 T ! Suc i ! Suc j ! Suc t ! Suc k) = n_dpd"
    using wf sh by (auto simp: wf5_def)
  show ?thesis
    using sh a b c d e i j t k l
    by (simp add: trim5_def slice_1_m1_length slice_1_m1_nth)
qed

lemma sum_axis2_is_time_sum:
  assumes "wf5 T"
  shows "is_time_sum_of (sum_axis2 T) T"
proof -
  obtain n_r n_ct n_t n_ctd n_dpd where sh: "shape5 T = (n_r, n_ct, n_t, n_ctd, n_dpd)"
    by (cases "shape5 T") auto
  show ?thesis
    using sh sum_axis2_wf[OF assms] sum_axis2_shape[OF sh] sum_axis2_nth[OF assms sh]
    by (simp add: is_time_sum_of_def)
qed

lemma sum_axis2_trim5_nth:
  assumes wf: "wf5 T" and sh: "shape5 T = (n_r, n_ct, n_t, n_ctd, n_dpd)"
      and i: "i < n_r - 2" and j: "j < n_ct - 2" and k: "k < n_ctd - 2" and l: "l < n_dpd - 2"
  shows "data4 (sum_axis2 (trim5 T)) ! i ! j ! k ! l
           = (\<Sum>t < n_t - 2. data5 T ! Suc i ! Suc j ! Suc t ! Suc k ! Suc l)"
proof -
  have "data4 (sum_axis2 (trim5 T)) ! i ! j ! k ! l
          = (\<Sum>t < n_t - 2. data5 (trim5 T) ! i ! j ! t ! k ! l)"
    using trim5_wf[OF wf] trim5_shape[OF sh] i j k l by (rule sum_axis2_nth)
  also have "\<dots> = (\<Sum>t < n_t - 2. data5 T ! Suc i ! Suc j ! Suc t ! Suc k ! Suc l)"
    using trim5_nth[OF wf sh i j _ k l] by (intro sum.cong) auto
  finally show ?thesis .
qed

lemma join_relative:
  "\<not> startswith a ''/'' \<Longrightarrow> join d a = (if d = [] \<or> endswith d ''/'' then d else d @ ''/'') @ a"
  by (simp add: join_def)

lemma out_paths_differ: "join d ''t_indep_table.npy'' \<noteq> join d ''t_indep_ckv_table.npy''"
proof -
  have a: "\<not> startswith ''t_indep_table.npy'' ''/''" and b: "\<not> startswith ''t_indep_ckv_table.npy'' ''/''"
    by (simp_all add: startswith_def)
  show ?thesis
    unfolding join_relative[OF a] join_relative[OF b] by simp
qed

subsection \<open>The steps of a run\<close>

lemma report_existing_effect:
  "files (report_existing name ex ov fpath w) = files w \<and>
   dirs (report_existing name ex ov fpath w) = dirs w \<and>
   (\<exists>ps. calls (report_existing name ex ov fpath w) = calls w @ ps \<and> (\<forall>c \<in> set ps. is_print c))"
  by (simp add: report_existing_def print_def)

lemma clsim_block_cases:
  assumes "clsim_block dp cp d f w = (w', err)"
  shows "(cp = None \<and> w' = w \<and> err = Some ValueError) \<or>
         (\<exists>p e msg. cp = Some p \<and> load_clsim_table_minimal dp p = Inl e \<and> err = Some e \<and>
            files w' = files w \<and> dirs w' = insert d (dirs w) \<and>
            calls w' = calls w @ [Print msg, Mkdir d, LoadClsim p]) \<or>
         (\<exists>p T msg. cp = Some p \<and> load_clsim_table_minimal dp p = Inr T \<and> err = None \<and>
            files w' = (files w)(f \<mapsto> Npy4 (sum_axis2 (trim5 T))) \<and> dirs w' = insert d (dirs w) \<and>
            calls w' = calls w @ [Print msg, Mkdir d, LoadClsim p, NpSave f (sum_axis2 (trim5 T))])"
  using assms
  by (auto simp: clsim_block_def Let_def print_def mkdir_def np_save_def
           split: option.splits sum.splits)

lemma ckv_block_cases:
  assumes "ckv_block dp cp d f w = (w', err)"
  shows "(cp = None \<and> w' = w \<and> err = Some ValueError) \<or>
         (\<exists>p e msg. cp = Some p \<and> load_ckv_table dp p = Inl e \<and> err = Some e \<and>
            files w' = files w \<and> dirs w' = insert d (dirs w) \<and>
            calls w' = calls w @ [Print msg, Mkdir d, LoadCkv p]) \<or>
         (\<exists>p T msg. cp = Some p \<and> load_ckv_table dp p = Inr T \<and> err = None \<and>
            files w' = (files w)(f \<mapsto> Npy4 (sum_axis2 T)) \<and> dirs w' = insert d (dirs w) \<and>
            calls w' = calls w @ [Print msg, Mkdir d, LoadCkv p, NpSave f (sum_axis2 T)])"
  using assms
  by (auto simp: ckv_block_def Let_def print_def mkdir_def np_save_def
           split: option.splits sum.splits)

text \<open>The function after its output directory is known, as a sequence of three steps.\<close>

lemma generate_steps:
  assumes "resolve_outdir w (expand dp table) outdir = Some d"
  shows "generate_time_indep_tables dp table kind outdir overwrite w =
    (let kinds = kinds_of kind;
         ft = find_tables w kinds (expand dp table);
         f1 = join d ''t_indep_table.npy'';
         f2 = join d ''t_indep_ckv_table.npy'';
         w2 = report_existing ''t_indep_ckv_table'' (''ckv'' \<in> set kinds \<and> isfile w f2) overwrite f2
                (report_existing ''t_indep_table'' (''clsim'' \<in> set kinds \<and> isfile w f1) overwrite f1 w);
         r1 = (if ''clsim'' \<in> set kinds \<and> (overwrite \<or> \<not> (''clsim'' \<in> set kinds \<and> isfile w f1))
               then clsim_block dp (fst ft) d f1 w2 else (w2, None))
     in case snd r1 of
          Some e \<Rightarrow> (fst r1, Some e)
        | None \<Rightarrow>
            (if ''ckv'' \<in> set kinds \<and> (overwrite \<or> \<not> (''ckv'' \<in> set kinds \<and> isfile w f2))
             then ckv_block dp (snd ft) d f2 (fst r1) else (fst r1, None)))"
  by (simp only: generate_time_indep_tables_def Let_def assms option.case case_prod_beta)

subsection \<open>The claims about \<^verbatim>\<open>generate_time_indep_tables\<close>\<close>

text \<open>
  Claim C1, as the code has it. For the kind \<^verbatim>\<open>clsim\<close>, when the table must be generated
  and its source is found and loads, the array saved as \<^verbatim>\<open>t_indep_table.npy\<close> is the
  time sum of the loaded table with the first and the last bin of every axis cut away
  (the slice \<^verbatim>\<open>[1:-1, 1:-1, 1:-1, 1:-1, 1:-1]\<close> of line 125): its shape is
  (n_r - 2, n_costheta - 2, n_costhetadir - 2, n_deltaphidir - 2), and its entry at
  (i, j, k, l) is the sum over the inner time bins t = 1, ..., n_t - 2 of the entries at
  (i + 1, j + 1, t, k + 1, l + 1) of the loaded table. This holds whatever the rest of
  the run does.
\<close>

theorem clsim_saved_table:
  assumes out: "resolve_outdir w (expand dp table) outdir = Some d"
      and kind: "''clsim'' \<in> set (kinds_of kind)"
      and gen: "overwrite \<or> \<not> isfile w (join d ''t_indep_table.npy'')"
      and src: "fst (find_tables w (kinds_of kind) (expand dp table)) = Some p"
      and load: "load_clsim_table_minimal dp p = Inr T"
      and wf: "wf5 T"
      and sh: "shape5 T = (n_r, n_ct, n_t, n_ctd, n_dpd)"
  shows "\<exists>A. files (fst (generate_time_indep_tables dp table kind outdir overwrite w))
                (join d ''t_indep_table.npy'') = Some (Npy4 A) \<and>
             is_time_sum_of A (trim5 T) \<and>
             shape4 A = (n_r - 2, n_ct - 2, n_ctd - 2, n_dpd - 2) \<and>
             (\<forall>i<n_r - 2. \<forall>j<n_ct - 2. \<forall>k<n_ctd - 2. \<forall>l<n_dpd - 2.
                data4 A ! i ! j ! k ! l
                  = (\<Sum>t<n_t - 2. data5 T ! Suc i ! Suc j ! Suc t ! Suc k ! Suc l))"
proof -
  let ?kinds = "kinds_of kind"
  let ?ft = "find_tables w ?kinds (expand dp table)"
  let ?f1 = "join d ''t_indep_table.npy''"
  let ?f2 = "join d ''t_indep_ckv_table.npy''"
  let ?A = "sum_axis2 (trim5 T)"
  define w2 where "w2 = report_existing ''t_indep_ckv_table'' (''ckv'' \<in> set ?kinds \<and> isfile w ?f2) overwrite ?f2
                (report_existing ''t_indep_table'' (''clsim'' \<in> set ?kinds \<and> isfile w ?f1) overwrite ?f1 w)"
  obtain w3 e3 where r1: "clsim_block dp (fst ?ft) d ?f1 w2 = (w3, e3)"
    by (cases "clsim_block dp (fst ?ft) d ?f1 w2") auto
  from clsim_block_cases[OF r1] src load
  have e3: "e3 = None" and f3: "files w3 = (files w2)(?f1 \<mapsto> Npy4 ?A)"
    by auto
  obtain w4 e4 where r2: "generate_time_indep_tables dp table kind outdir overwrite w = (w4, e4)"
    by (cases "generate_time_indep_tables dp table kind outdir overwrite w") auto
  have "w4 = w3 \<or> (\<exists>e. ckv_block dp (snd ?ft) d ?f2 w3 = (w4, e))"
    using r2 r1 e3 kind gen
    unfolding generate_steps[OF out] Let_def w2_def[symmetric]
    by (auto split: if_splits)
  then have "files w4 ?f1 = files w3 ?f1"
  proof
    assume "w4 = w3" then show ?thesis by simp
  next
    assume "\<exists>e. ckv_block dp (snd ?ft) d ?f2 w3 = (w4, e)"
    then obtain e where "ckv_block dp (snd ?ft) d ?f2 w3 = (w4, e)" ..
    from ckv_block_cases[OF this] out_paths_differ[of d] show ?thesis
      by auto
  qed
  then have saved: "files w4 ?f1 = Some (Npy4 ?A)"
    using f3 by simp
  have ts: "is_time_sum_of ?A (trim5 T)"
    using trim5_wf[OF wf] by (rule sum_axis2_is_time_sum)
  have shp: "shape4 ?A = (n_r - 2, n_ct - 2, n_ctd - 2, n_dpd - 2)"
    using trim5_shape[OF sh] by (rule sum_axis2_shape)
  have ent: "\<forall>i<n_r - 2. \<forall>j<n_ct - 2. \<forall>k<n_ctd - 2. \<forall>l<n_dpd - 2.
                data4 ?A ! i ! j ! k ! l
                  = (\<Sum>t<n_t - 2. data5 T ! Suc i ! Suc j ! Suc t ! Suc k ! Suc l)"
    using sum_axis2_trim5_nth[OF wf sh] by blast
  show ?thesis
    using saved ts shp ent r2 by (intro exI[of _ ?A]) simp
qed

theorem clsim_saved_table_witness:
  "resolve_outdir demo_world (expand demo_deps ''tbl'') None = Some ''tbl'' \<and>
   load_clsim_table_minimal demo_deps ''tbl'' = Inr ones5 \<and> wf5 ones5 \<and>
   (\<exists>A. files (fst (generate_time_indep_tables demo_deps ''tbl'' (OneKind ''clsim'') None False
                      demo_world)) (join ''tbl'' ''t_indep_table.npy'') = Some (Npy4 A) \<and>
        is_time_sum_of A (trim5 ones5) \<and>
        shape4 A = (1, 1, 1, 1) \<and>
        data4 A ! 0 ! 0 ! 0 ! 0 = (\<Sum>t<(1::nat). data5 ones5 ! 1 ! 1 ! Suc t ! 1 ! 1))"
proof -
  have h1: "resolve_outdir demo_world (expand demo_deps ''tbl'') None = Some ''tbl''"
    by code_simp
  have h2: "''clsim'' \<in> set (kinds_of (OneKind ''clsim''))"
    by code_simp
  have h3: "False \<or> \<not> isfile demo_world (join ''tbl'' ''t_indep_table.npy'')"
    by code_simp
  have h4: "fst (find_tables demo_world (kinds_of (OneKind ''clsim'')) (expand demo_deps ''tbl''))
              = Some ''tbl''"
    by code_simp
  have h5: "load_clsim_table_minimal demo_deps ''tbl'' = Inr ones5"
    by code_simp
  have h6: "wf5 ones5"
    by code_simp
  have h7: "shape5 ones5 = (3, 3, 3, 3, 3)"
    by code_simp
  from clsim_saved_table[OF h1 h2 h3 h4 h5 h6 h7]
  obtain A where A:
    "files (fst (generate_time_indep_tables demo_deps ''tbl'' (OneKind ''clsim'') None False
                   demo_world)) (join ''tbl'' ''t_indep_table.npy'') = Some (Npy4 A)"
    "is_time_sum_of A (trim5 ones5)"
    "shape4 A = (3 - 2, 3 - 2, 3 - 2, 3 - 2)"
    "\<forall>i<3 - 2. \<forall>j<3 - 2. \<forall>k<3 - 2. \<forall>l<3 - 2.
       data4 A ! i ! j ! k ! l = (\<Sum>t<3 - 2. data5 ones5 ! Suc i ! Suc j ! Suc t ! Suc k ! Suc l)"
    by blast
  have "data4 A ! 0 ! 0 ! 0 ! 0 = (\<Sum>t<(1::nat). data5 ones5 ! 1 ! 1 ! Suc t ! 1 ! 1)"
    using A(4) by simp
  with A(1,2,3) h1 h5 h6 show ?thesis
    by (intro conjI exI[of _ A]) simp_all
qed

text \<open>
  Claim C1 as stated fails. The loaded table has shape (3, 3, 3, 3, 3) and every
  entry 1; summed over its time axis it has shape (3, 3, 3, 3) and every entry 3. The
  saved array has shape (1, 1, 1, 1) and the single entry 1.
\<close>

theorem clsim_full_time_sum_counterexample:
  "load_clsim_table_minimal demo_deps ''tbl'' = Inr ones5 \<and>
   files (fst (generate_time_indep_tables demo_deps ''tbl'' (OneKind ''clsim'') None False
                 demo_world)) ''tbl/t_indep_table.npy''
     = Some (Npy4 \<lparr>shape4 = (1, 1, 1, 1), data4 = [[[[1]]]]\<rparr>) \<and>
   \<not> is_time_sum_of \<lparr>shape4 = (1, 1, 1, 1), data4 = [[[[1::int]]]]\<rparr> ones5 \<and>
   sum_axis2 ones5 \<noteq> \<lparr>shape4 = (1, 1, 1, 1), data4 = [[[[1]]]]\<rparr> \<and>
   data4 (sum_axis2 ones5) ! 0 ! 0 ! 0 ! 0 = 3"
proof -
  have a: "load_clsim_table_minimal demo_deps ''tbl'' = Inr ones5"
    by code_simp
  have b: "files (fst (generate_time_indep_tables demo_deps ''tbl'' (OneKind ''clsim'') None False
                 demo_world)) ''tbl/t_indep_table.npy''
     = Some (Npy4 \<lparr>shape4 = (1, 1, 1, 1), data4 = [[[[1]]]]\<rparr>)"
    by code_simp
  have c: "\<not> is_time_sum_of \<lparr>shape4 = (1, 1, 1, 1), data4 = [[[[1::int]]]]\<rparr> ones5"
    by (simp add: is_time_sum_of_def ones5_def)
  have d: "sum_axis2 ones5 \<noteq> \<lparr>shape4 = (1, 1, 1, 1), data4 = [[[[1]]]]\<rparr>"
    by code_simp
  have e: "data4 (sum_axis2 ones5) ! 0 ! 0 ! 0 ! 0 = 3"
    by code_simp
  from a b c d e show ?thesis by blast
qed

text \<open>
  Claim C2. For the kind \<^verbatim>\<open>ckv\<close>, when the table must be generated and the run
  completes, a source table was identified, the loader returned a table for it, and the
  array saved as \<^verbatim>\<open>t_indep_ckv_table.npy\<close> is that table summed over its time axis: it
  has the table's shape without the time axis, and each of its entries is the sum over
  all time bins of the corresponding entries of the loaded table.
\<close>

theorem ckv_saved_table:
  assumes run: "generate_time_indep_tables dp table kind outdir overwrite w = (w', None)"
      and out: "resolve_outdir w (expand dp table) outdir = Some d"
      and kind: "''ckv'' \<in> set (kinds_of kind)"
      and gen: "overwrite \<or> \<not> isfile w (join d ''t_indep_ckv_table.npy'')"
      and wf: "\<And>p T. load_ckv_table dp p = Inr T \<Longrightarrow> wf5 T"
  shows "\<exists>p T. snd (find_tables w (kinds_of kind) (expand dp table)) = Some p \<and>
               load_ckv_table dp p = Inr T \<and>
               files w' (join d ''t_indep_ckv_table.npy'') = Some (Npy4 (sum_axis2 T)) \<and>
               is_time_sum_of (sum_axis2 T) T"
proof -
  let ?kinds = "kinds_of kind"
  let ?ft = "find_tables w ?kinds (expand dp table)"
  let ?f1 = "join d ''t_indep_table.npy''"
  let ?f2 = "join d ''t_indep_ckv_table.npy''"
  define w2 where "w2 = report_existing ''t_indep_ckv_table'' (''ckv'' \<in> set ?kinds \<and> isfile w ?f2) overwrite ?f2
                (report_existing ''t_indep_table'' (''clsim'' \<in> set ?kinds \<and> isfile w ?f1) overwrite ?f1 w)"
  define r1 where "r1 = (if ''clsim'' \<in> set ?kinds \<and> (overwrite \<or> \<not> (''clsim'' \<in> set ?kinds \<and> isfile w ?f1))
               then clsim_block dp (fst ?ft) d ?f1 w2 else (w2, None))"
  have steps: "(case snd r1 of
          Some e \<Rightarrow> (fst r1, Some e)
        | None \<Rightarrow>
            (if ''ckv'' \<in> set ?kinds \<and> (overwrite \<or> \<not> (''ckv'' \<in> set ?kinds \<and> isfile w ?f2))
             then ckv_block dp (snd ?ft) d ?f2 (fst r1) else (fst r1, None))) = (w', None)"
    using run unfolding generate_steps[OF out] Let_def w2_def[symmetric] r1_def[symmetric] .
  have "snd r1 = None"
    using steps by (cases "snd r1") auto
  with steps kind gen have "ckv_block dp (snd ?ft) d ?f2 (fst r1) = (w', None)"
    by auto
  from ckv_block_cases[OF this]
  obtain p T where pT: "snd ?ft = Some p" "load_ckv_table dp p = Inr T"
      "files w' = (files (fst r1))(?f2 \<mapsto> Npy4 (sum_axis2 T))"
    by auto
  have "is_time_sum_of (sum_axis2 T) T"
    using wf[OF pT(2)] by (rule sum_axis2_is_time_sum)
  with pT show ?thesis by auto
qed

theorem ckv_saved_table_witness:
  "generate_time_indep_tables demo_deps ''tbl'' (OneKind ''ckv'') None False demo_world
     = (fst (generate_time_indep_tables demo_deps ''tbl'' (OneKind ''ckv'') None False demo_world), None) \<and>
   (\<exists>p T. snd (find_tables demo_world (kinds_of (OneKind ''ckv'')) (expand demo_deps ''tbl'')) = Some p \<and>
          load_ckv_table demo_deps p = Inr T \<and>
          files (fst (generate_time_indep_tables demo_deps ''tbl'' (OneKind ''ckv'') None False demo_world))
            (join ''tbl'' ''t_indep_ckv_table.npy'') = Some (Npy4 (sum_axis2 T)) \<and>
          is_time_sum_of (sum_axis2 T) T) \<and>
   files (fst (generate_time_indep_tables demo_deps ''tbl'' (OneKind ''ckv'') None False demo_world))
     ''tbl/t_indep_ckv_table.npy''
       = Some (Npy4 \<lparr>shape4 = (3, 3, 3, 3),
                      data4 = replicate 3 (replicate 3 (replicate 3 (replicate 3 3)))\<rparr>)"
proof -
  let ?run = "generate_time_indep_tables demo_deps ''tbl'' (OneKind ''ckv'') None False demo_world"
  have "snd ?run = None"
    by code_simp
  then have h1: "?run = (fst ?run, None)"
    by (metis prod.collapse)
  have h2: "resolve_outdir demo_world (expand demo_deps ''tbl'') None = Some ''tbl''"
    by code_simp
  have h3: "''ckv'' \<in> set (kinds_of (OneKind ''ckv''))"
    by code_simp
  have h4: "False \<or> \<not> isfile demo_world (join ''tbl'' ''t_indep_ckv_table.npy'')"
    by code_simp
  have h5: "wf5 T" if "load_ckv_table demo_deps p = Inr T" for p T
  proof -
    have "T = ones5" using that by (simp add: demo_deps_def split: if_splits)
    moreover have "wf5 ones5" by code_simp
    ultimately show ?thesis by simp
  qed
  have v: "files (fst ?run) ''tbl/t_indep_ckv_table.npy''
       = Some (Npy4 \<lparr>shape4 = (3, 3, 3, 3),
                      data4 = replicate 3 (replicate 3 (replicate 3 (replicate 3 3)))\<rparr>)"
    by code_simp
  have c: "\<exists>p T. snd (find_tables demo_world (kinds_of (OneKind ''ckv'')) (expand demo_deps ''tbl'')) = Some p \<and>
          load_ckv_table demo_deps p = Inr T \<and>
          files (fst ?run) (join ''tbl'' ''t_indep_ckv_table.npy'') = Some (Npy4 (sum_axis2 T)) \<and>
          is_time_sum_of (sum_axis2 T) T"
    by (rule ckv_saved_table[OF h1 h2 h3 h4]) (rule h5)
  from c h1 v show ?thesis
    by blast
qed

lemma new_calls_append: "calls w' = calls w @ new \<Longrightarrow> new_calls w w' = new"
  by (simp add: new_calls_def)

lemma reports_effect:
  "files (report_existing n2 ex2 ov f2 (report_existing n1 ex1 ov f1 w)) = files w \<and>
   dirs (report_existing n2 ex2 ov f2 (report_existing n1 ex1 ov f1 w)) = dirs w \<and>
   (\<exists>ps. calls (report_existing n2 ex2 ov f2 (report_existing n1 ex1 ov f1 w)) = calls w @ ps \<and>
         (\<forall>c \<in> set ps. is_print c))"
  by (simp add: report_existing_def print_def)

lemma clsim_block_frame:
  assumes "clsim_block dp cp d f1 w = (w', err)" and "f1 \<noteq> f2"
  shows "files w' f2 = files w f2 \<and>
         (\<exists>new. calls w' = calls w @ new \<and> (\<forall>c \<in> set new. \<not> ckv_work f2 c))"
  using clsim_block_cases[OF assms(1)] assms(2) by auto

lemma ckv_block_frame:
  assumes "ckv_block dp cp d f2 w = (w', err)" and "f1 \<noteq> f2"
  shows "files w' f1 = files w f1 \<and>
         (\<exists>new. calls w' = calls w @ new \<and> (\<forall>c \<in> set new. \<not> clsim_work f1 c))"
  using ckv_block_cases[OF assms(1)] assms(2) by auto

lemma print_not_work: "is_print c \<Longrightarrow> \<not> clsim_work f c \<and> \<not> ckv_work f c"
  by (cases c) simp_all

text \<open>
  Claim C9. With \<^verbatim>\<open>overwrite\<close> false, a requested kind whose output file exists in the
  output directory is left alone: the run makes no call that loads a source table of that
  kind or saves to that output path, and the file is the same after the run as before,
  whatever the run does for the other kind and however it ends.
\<close>

theorem existing_output_untouched:
  assumes out: "resolve_outdir w (expand dp table) outdir = Some d"
      and run: "generate_time_indep_tables dp table kind outdir False w = (w', err)"
  shows "(''clsim'' \<in> set (kinds_of kind) \<and> isfile w (join d ''t_indep_table.npy'') \<longrightarrow>
            files w' (join d ''t_indep_table.npy'') = files w (join d ''t_indep_table.npy'') \<and>
            calls w' = calls w @ new_calls w w' \<and>
            (\<forall>c \<in> set (new_calls w w'). \<not> clsim_work (join d ''t_indep_table.npy'') c)) \<and>
         (''ckv'' \<in> set (kinds_of kind) \<and> isfile w (join d ''t_indep_ckv_table.npy'') \<longrightarrow>
            files w' (join d ''t_indep_ckv_table.npy'') = files w (join d ''t_indep_ckv_table.npy'') \<and>
            calls w' = calls w @ new_calls w w' \<and>
            (\<forall>c \<in> set (new_calls w w'). \<not> ckv_work (join d ''t_indep_ckv_table.npy'') c))"
proof -
  let ?kinds = "kinds_of kind"
  let ?ft = "find_tables w ?kinds (expand dp table)"
  let ?f1 = "join d ''t_indep_table.npy''"
  let ?f2 = "join d ''t_indep_ckv_table.npy''"
  define w2 where "w2 = report_existing ''t_indep_ckv_table'' (''ckv'' \<in> set ?kinds \<and> isfile w ?f2) False ?f2
                (report_existing ''t_indep_table'' (''clsim'' \<in> set ?kinds \<and> isfile w ?f1) False ?f1 w)"
  define r1 where "r1 = (if ''clsim'' \<in> set ?kinds \<and> (False \<or> \<not> (''clsim'' \<in> set ?kinds \<and> isfile w ?f1))
               then clsim_block dp (fst ?ft) d ?f1 w2 else (w2, None))"
  have steps: "(case snd r1 of
          Some e \<Rightarrow> (fst r1, Some e)
        | None \<Rightarrow>
            (if ''ckv'' \<in> set ?kinds \<and> (False \<or> \<not> (''ckv'' \<in> set ?kinds \<and> isfile w ?f2))
             then ckv_block dp (snd ?ft) d ?f2 (fst r1) else (fst r1, None))) = (w', err)"
    using run unfolding generate_steps[OF out] Let_def w2_def[symmetric] r1_def[symmetric] .
  from reports_effect[of "''t_indep_ckv_table''" _ False ?f2 "''t_indep_table''" _ ?f1 w]
  obtain ps where w2: "files w2 = files w" "calls w2 = calls w @ ps" "\<forall>c \<in> set ps. is_print c"
    unfolding w2_def by blast
  have diff: "?f1 \<noteq> ?f2"
    by (rule out_paths_differ)
  have part1: "files w' ?f1 = files w ?f1 \<and> calls w' = calls w @ new_calls w w' \<and>
            (\<forall>c \<in> set (new_calls w w'). \<not> clsim_work ?f1 c)"
    if k: "''clsim'' \<in> set ?kinds" and ex: "isfile w ?f1"
  proof -
    have r1: "r1 = (w2, None)"
      using k ex by (simp add: r1_def)
    have "(w' = w2) \<or> (\<exists>e. ckv_block dp (snd ?ft) d ?f2 w2 = (w', e))"
      using steps unfolding r1 by (auto split: if_splits)
    then have "files w' ?f1 = files w2 ?f1 \<and>
               (\<exists>new. calls w' = calls w2 @ new \<and> (\<forall>c \<in> set new. \<not> clsim_work ?f1 c))"
    proof
      assume "w' = w2" then show ?thesis by simp
    next
      assume "\<exists>e. ckv_block dp (snd ?ft) d ?f2 w2 = (w', e)"
      then obtain e where "ckv_block dp (snd ?ft) d ?f2 w2 = (w', e)" ..
      then show ?thesis using diff by (rule ckv_block_frame)
    qed
    then obtain new where new: "files w' ?f1 = files w2 ?f1" "calls w' = calls w2 @ new"
        "\<forall>c \<in> set new. \<not> clsim_work ?f1 c"
      by blast
    have c: "calls w' = calls w @ (ps @ new)"
      using new(2) w2(2) by simp
    have "\<forall>c \<in> set (ps @ new). \<not> clsim_work ?f1 c"
      using new(3) w2(3) print_not_work by auto
    then show ?thesis
      using new(1) w2(1) c new_calls_append[OF c] by simp
  qed
  have part2: "files w' ?f2 = files w ?f2 \<and> calls w' = calls w @ new_calls w w' \<and>
            (\<forall>c \<in> set (new_calls w w'). \<not> ckv_work ?f2 c)"
    if k: "''ckv'' \<in> set ?kinds" and ex: "isfile w ?f2"
  proof -
    have fin: "(w', err) = (case snd r1 of Some e \<Rightarrow> (fst r1, Some e) | None \<Rightarrow> (fst r1, None))"
      using steps k ex by (auto split: option.splits)
    then have w': "w' = fst r1"
      by (auto split: option.splits)
    have "fst r1 = w2 \<or> (\<exists>e. clsim_block dp (fst ?ft) d ?f1 w2 = (fst r1, e))"
      unfolding r1_def by (auto split: if_splits intro: prod.collapse[symmetric])
    then have "files w' ?f2 = files w2 ?f2 \<and>
               (\<exists>new. calls w' = calls w2 @ new \<and> (\<forall>c \<in> set new. \<not> ckv_work ?f2 c))"
    proof
      assume "fst r1 = w2" then show ?thesis using w' by simp
    next
      assume "\<exists>e. clsim_block dp (fst ?ft) d ?f1 w2 = (fst r1, e)"
      then obtain e where "clsim_block dp (fst ?ft) d ?f1 w2 = (w', e)"
        using w' by auto
      then show ?thesis using diff by (rule clsim_block_frame)
    qed
    then obtain new where new: "files w' ?f2 = files w2 ?f2" "calls w' = calls w2 @ new"
        "\<forall>c \<in> set new. \<not> ckv_work ?f2 c"
      by blast
    have c: "calls w' = calls w @ (ps @ new)"
      using new(2) w2(2) by simp
    have "\<forall>c \<in> set (ps @ new). \<not> ckv_work ?f2 c"
      using new(3) w2(3) print_not_work by auto
    then show ?thesis
      using new(1) w2(1) c new_calls_append[OF c] by simp
  qed
  from part1 part2 show ?thesis by blast
qed

theorem existing_output_untouched_witness:
  "''clsim'' \<in> set (kinds_of (Kinds [''clsim'', ''ckv''])) \<and>
   isfile done_world (join ''tbl'' ''t_indep_table.npy'') \<and>
   ''ckv'' \<in> set (kinds_of (Kinds [''clsim'', ''ckv''])) \<and>
   isfile done_world (join ''tbl'' ''t_indep_ckv_table.npy'') \<and>
   files (fst (generate_time_indep_tables demo_deps ''tbl'' (Kinds [''clsim'', ''ckv'']) None False
                 done_world)) (join ''tbl'' ''t_indep_table.npy'')
     = files done_world (join ''tbl'' ''t_indep_table.npy'') \<and>
   files (fst (generate_time_indep_tables demo_deps ''tbl'' (Kinds [''clsim'', ''ckv'']) None False
                 done_world)) (join ''tbl'' ''t_indep_ckv_table.npy'')
     = files done_world (join ''tbl'' ''t_indep_ckv_table.npy'') \<and>
   list_all (\<lambda>c. \<not> clsim_work (join ''tbl'' ''t_indep_table.npy'') c \<and>
                  \<not> ckv_work (join ''tbl'' ''t_indep_ckv_table.npy'') c)
     (new_calls done_world
        (fst (generate_time_indep_tables demo_deps ''tbl'' (Kinds [''clsim'', ''ckv'']) None False
                done_world))) \<and>
   length (new_calls done_world
        (fst (generate_time_indep_tables demo_deps ''tbl'' (Kinds [''clsim'', ''ckv'']) None False
                done_world))) = 2"
proof -
  let ?K = "Kinds [''clsim'', ''ckv'']"
  let ?run = "generate_time_indep_tables demo_deps ''tbl'' ?K None False done_world"
  have h1: "resolve_outdir done_world (expand demo_deps ''tbl'') None = Some ''tbl''"
    by code_simp
  have h2: "?run = (fst ?run, snd ?run)"
    by simp
  have k1: "''clsim'' \<in> set (kinds_of ?K)" and k2: "''ckv'' \<in> set (kinds_of ?K)"
    by code_simp+
  have e1: "isfile done_world (join ''tbl'' ''t_indep_table.npy'')"
    and e2: "isfile done_world (join ''tbl'' ''t_indep_ckv_table.npy'')"
    by code_simp+
  have n: "length (new_calls done_world (fst ?run)) = 2"
    by code_simp
  from existing_output_untouched[OF h1 h2] k1 k2 e1 e2 n show ?thesis
    by (simp add: list_all_iff)
qed

text \<open>
  Claim C10, as the code has it. Let the output directory be given or derivable from the
  table's path, and let a requested kind have to be generated with no source table
  identified for it. For \<^verbatim>\<open>clsim\<close> the run raises \<^verbatim>\<open>ValueError\<close> having only printed:
  no directory is made and no file is written. For \<^verbatim>\<open>ckv\<close> the run raises without
  loading a Cherenkov table or saving to the ckv output path; the exception is
  \<^verbatim>\<open>ValueError\<close> unless loading the CLSim table raised first, and when the \<^verbatim>\<open>clsim\<close>
  step does not run, nothing is made or written at all. (When the \<^verbatim>\<open>clsim\<close> step runs
  and completes, it has made the output directory and saved \<^verbatim>\<open>t_indep_table.npy\<close> before
  the \<^verbatim>\<open>ValueError\<close> for \<^verbatim>\<open>ckv\<close>.)
\<close>

theorem missing_source_raises:
  assumes out: "resolve_outdir w (expand dp table) outdir = Some d"
      and run: "generate_time_indep_tables dp table kind outdir overwrite w = (w', err)"
  shows "(''clsim'' \<in> set (kinds_of kind) \<and>
          (overwrite \<or> \<not> isfile w (join d ''t_indep_table.npy'')) \<and>
          fst (find_tables w (kinds_of kind) (expand dp table)) = None \<longrightarrow>
            err = Some ValueError \<and> files w' = files w \<and> dirs w' = dirs w \<and>
            calls w' = calls w @ new_calls w w' \<and>
            (\<forall>c \<in> set (new_calls w w'). is_print c)) \<and>
         (''ckv'' \<in> set (kinds_of kind) \<and>
          (overwrite \<or> \<not> isfile w (join d ''t_indep_ckv_table.npy'')) \<and>
          snd (find_tables w (kinds_of kind) (expand dp table)) = None \<longrightarrow>
            (err = Some ValueError \<or>
             (''clsim'' \<in> set (kinds_of kind) \<and>
              (overwrite \<or> \<not> isfile w (join d ''t_indep_table.npy'')) \<and>
              (\<exists>p e. fst (find_tables w (kinds_of kind) (expand dp table)) = Some p \<and>
                     load_clsim_table_minimal dp p = Inl e \<and> err = Some e))) \<and>
            files w' (join d ''t_indep_ckv_table.npy'') = files w (join d ''t_indep_ckv_table.npy'') \<and>
            calls w' = calls w @ new_calls w w' \<and>
            (\<forall>c \<in> set (new_calls w w'). \<not> ckv_work (join d ''t_indep_ckv_table.npy'') c) \<and>
            (\<not> (''clsim'' \<in> set (kinds_of kind) \<and>
                (overwrite \<or> \<not> isfile w (join d ''t_indep_table.npy''))) \<longrightarrow>
               files w' = files w \<and> dirs w' = dirs w \<and>
               (\<forall>c \<in> set (new_calls w w'). is_print c)))"
proof -
  let ?kinds = "kinds_of kind"
  let ?ft = "find_tables w ?kinds (expand dp table)"
  let ?f1 = "join d ''t_indep_table.npy''"
  let ?f2 = "join d ''t_indep_ckv_table.npy''"
  let ?c1 = "''clsim'' \<in> set ?kinds \<and> (overwrite \<or> \<not> isfile w ?f1)"
  define w2 where "w2 = report_existing ''t_indep_ckv_table'' (''ckv'' \<in> set ?kinds \<and> isfile w ?f2) overwrite ?f2
                (report_existing ''t_indep_table'' (''clsim'' \<in> set ?kinds \<and> isfile w ?f1) overwrite ?f1 w)"
  define r1 where "r1 = (if ''clsim'' \<in> set ?kinds \<and> (overwrite \<or> \<not> (''clsim'' \<in> set ?kinds \<and> isfile w ?f1))
               then clsim_block dp (fst ?ft) d ?f1 w2 else (w2, None))"
  have steps: "(case snd r1 of
          Some e \<Rightarrow> (fst r1, Some e)
        | None \<Rightarrow>
            (if ''ckv'' \<in> set ?kinds \<and> (overwrite \<or> \<not> (''ckv'' \<in> set ?kinds \<and> isfile w ?f2))
             then ckv_block dp (snd ?ft) d ?f2 (fst r1) else (fst r1, None))) = (w', err)"
    using run unfolding generate_steps[OF out] Let_def w2_def[symmetric] r1_def[symmetric] .
  from reports_effect[of "''t_indep_ckv_table''" _ overwrite ?f2 "''t_indep_table''" _ ?f1 w]
  obtain ps where w2: "files w2 = files w" "dirs w2 = dirs w" "calls w2 = calls w @ ps"
      "\<forall>c \<in> set ps. is_print c"
    unfolding w2_def by blast
  have nc2: "new_calls w w2 = ps"
    using w2(3) by (rule new_calls_append)
  have diff: "?f1 \<noteq> ?f2"
    by (rule out_paths_differ)
  have part1: "err = Some ValueError \<and> files w' = files w \<and> dirs w' = dirs w \<and>
            calls w' = calls w @ new_calls w w' \<and> (\<forall>c \<in> set (new_calls w w'). is_print c)"
    if c1: "?c1" and src: "fst ?ft = None"
  proof -
    have "r1 = (w2, Some ValueError)"
      using c1 src by (auto simp: r1_def clsim_block_def)
    with steps have "w' = w2" "err = Some ValueError"
      by auto
    then show ?thesis using w2 nc2 by simp
  qed
  have part2: "(err = Some ValueError \<or>
             (?c1 \<and> (\<exists>p e. fst ?ft = Some p \<and> load_clsim_table_minimal dp p = Inl e \<and> err = Some e))) \<and>
            files w' ?f2 = files w ?f2 \<and>
            calls w' = calls w @ new_calls w w' \<and>
            (\<forall>c \<in> set (new_calls w w'). \<not> ckv_work ?f2 c) \<and>
            (\<not> ?c1 \<longrightarrow> files w' = files w \<and> dirs w' = dirs w \<and>
               (\<forall>c \<in> set (new_calls w w'). is_print c))"
    if c2: "''ckv'' \<in> set ?kinds \<and> (overwrite \<or> \<not> isfile w ?f2)" and src: "snd ?ft = None"
  proof (cases ?c1)
    case False
    then have "r1 = (w2, None)"
      by (auto simp: r1_def)
    with steps c2 src have "w' = w2" "err = Some ValueError"
      by (auto simp: ckv_block_def)
    then show ?thesis
      using w2 nc2 False print_not_work by auto
  next
    case True
    obtain w3 e3 where r: "clsim_block dp (fst ?ft) d ?f1 w2 = (w3, e3)"
      by (cases "clsim_block dp (fst ?ft) d ?f1 w2") auto
    have r1: "r1 = (w3, e3)"
      using True r by (auto simp: r1_def)
    have w': "w' = w3"
      using steps c2 src unfolding r1 by (auto simp: ckv_block_def split: option.splits)
    have e: "err = (case e3 of Some e \<Rightarrow> Some e | None \<Rightarrow> Some ValueError)"
      using steps c2 src unfolding r1 by (auto simp: ckv_block_def split: option.splits)
    from clsim_block_frame[OF r diff]
    obtain new where new: "files w3 ?f2 = files w2 ?f2" "calls w3 = calls w2 @ new"
        "\<forall>c \<in> set new. \<not> ckv_work ?f2 c"
      by blast
    have c: "calls w' = calls w @ (ps @ new)"
      using new(2) w2(3) w' by simp
    have nw: "\<forall>c \<in> set (ps @ new). \<not> ckv_work ?f2 c"
      using new(3) w2(4) print_not_work by auto
    have "err = Some ValueError \<or>
          (\<exists>p e. fst ?ft = Some p \<and> load_clsim_table_minimal dp p = Inl e \<and> err = Some e)"
      using clsim_block_cases[OF r] e by auto
    then show ?thesis
      using True new(1) w2(1) w' c nw new_calls_append[OF c] by auto
  qed
  from part1 part2 show ?thesis by blast
qed

theorem missing_source_raises_witness:
  "''clsim'' \<in> set (kinds_of (OneKind ''clsim'')) \<and>
   fst (find_tables empty_world (kinds_of (OneKind ''clsim'')) (expand demo_deps ''nowhere'')) = None \<and>
   snd (generate_time_indep_tables demo_deps ''nowhere'' (OneKind ''clsim'') (Some ''out'') True
          empty_world) = Some ValueError \<and>
   files (fst (generate_time_indep_tables demo_deps ''nowhere'' (OneKind ''clsim'') (Some ''out'') True
          empty_world)) = files empty_world \<and>
   dirs (fst (generate_time_indep_tables demo_deps ''nowhere'' (OneKind ''clsim'') (Some ''out'') True
          empty_world)) = dirs empty_world \<and>
   ''ckv'' \<in> set (kinds_of (Kinds [''clsim'', ''ckv''])) \<and>
   snd (find_tables clsim_only_world (kinds_of (Kinds [''clsim'', ''ckv''])) (expand demo_deps ''tbl''))
     = None \<and>
   snd (generate_time_indep_tables demo_deps ''tbl'' (Kinds [''clsim'', ''ckv'']) None False
          clsim_only_world) = Some ValueError \<and>
   files (fst (generate_time_indep_tables demo_deps ''tbl'' (Kinds [''clsim'', ''ckv'']) None False
          clsim_only_world)) (join ''tbl'' ''t_indep_ckv_table.npy'')
     = files clsim_only_world (join ''tbl'' ''t_indep_ckv_table.npy'') \<and>
   list_all (\<lambda>c. \<not> ckv_work (join ''tbl'' ''t_indep_ckv_table.npy'') c)
     (new_calls clsim_only_world
        (fst (generate_time_indep_tables demo_deps ''tbl'' (Kinds [''clsim'', ''ckv'']) None False
                clsim_only_world)))"
proof -
  let ?runA = "generate_time_indep_tables demo_deps ''nowhere'' (OneKind ''clsim'') (Some ''out'') True
                 empty_world"
  let ?K = "Kinds [''clsim'', ''ckv'']"
  let ?runB = "generate_time_indep_tables demo_deps ''tbl'' ?K None False clsim_only_world"
  have a1: "resolve_outdir empty_world (expand demo_deps ''nowhere'') (Some ''out'') = Some ''out''"
    by code_simp
  have a2: "?runA = (fst ?runA, snd ?runA)"
    by simp
  have a3: "''clsim'' \<in> set (kinds_of (OneKind ''clsim''))"
    by code_simp
  have a4: "fst (find_tables empty_world (kinds_of (OneKind ''clsim'')) (expand demo_deps ''nowhere''))
              = None"
    by code_simp
  have b1: "resolve_outdir clsim_only_world (expand demo_deps ''tbl'') None = Some ''tbl''"
    by code_simp
  have b2: "?runB = (fst ?runB, snd ?runB)"
    by simp
  have b3: "''ckv'' \<in> set (kinds_of ?K)"
    by code_simp
  have b4: "snd (find_tables clsim_only_world (kinds_of ?K) (expand demo_deps ''tbl'')) = None"
    by code_simp
  have b5: "\<not> isfile clsim_only_world (join ''tbl'' ''t_indep_ckv_table.npy'')"
    by code_simp
  have b7: "snd ?runB = Some ValueError"
    by code_simp
  from missing_source_raises[OF a1 a2] a3 a4
  have A: "snd ?runA = Some ValueError \<and> files (fst ?runA) = files empty_world \<and>
           dirs (fst ?runA) = dirs empty_world"
    by simp
  from missing_source_raises[OF b1 b2] b3 b4 b5
  have B: "files (fst ?runB) (join ''tbl'' ''t_indep_ckv_table.npy'')
             = files clsim_only_world (join ''tbl'' ''t_indep_ckv_table.npy'') \<and>
           (\<forall>c \<in> set (new_calls clsim_only_world (fst ?runB)).
              \<not> ckv_work (join ''tbl'' ''t_indep_ckv_table.npy'') c)"
    by simp
  from A B a3 a4 b3 b4 b7 show ?thesis
    by (simp add: list_all_iff)
qed

text \<open>
  Claim C10 as stated fails. The kind \<^verbatim>\<open>ckv\<close> is requested with \<^verbatim>\<open>overwrite\<close> true, so
  it must be generated; the table path \<^verbatim>\<open>nowhere\<close> is neither a file nor a directory, so
  no source table is identified; no output directory is given and none can be derived
  from the path. The run raises at line 88, and the exception is not \<^verbatim>\<open>ValueError\<close>.
\<close>

theorem missing_source_counterexample:
  "''ckv'' \<in> set (kinds_of (OneKind ''ckv'')) \<and>
   find_tables empty_world (kinds_of (OneKind ''ckv'')) (expand demo_deps ''nowhere'') = (None, None) \<and>
   resolve_outdir empty_world (expand demo_deps ''nowhere'') None = None \<and>
   snd (generate_time_indep_tables demo_deps ''nowhere'' (OneKind ''ckv'') None True empty_world)
     = Some TypeError \<and>
   snd (generate_time_indep_tables demo_deps ''nowhere'' (OneKind ''ckv'') None True empty_world)
     \<noteq> Some ValueError"
  by code_simp

section \<open>Priors from earlier reconstructions (\<^verbatim>\<open>fit_prior_dist.py\<close>)\<close>

subsection \<open>Floating-point values and numpy arrays of events\<close>

text \<open>
  A float is a (real) number, an infinity or not-a-number. What a subtraction or a
  division of two floats gives depends on the float type of the arrays, which the files
  decide: it rounds, and it overflows to an infinity when the operands are large. So the
  two operations are taken from the environment below (\<open>float_sub\<close>, \<open>float_div\<close>), and
  nothing is assumed of them.
\<close>

datatype pyfloat = Fin real | PInf | NInf | NaN

fun isfinite :: "pyfloat \<Rightarrow> bool" where
  "isfinite (Fin _) = True"
| "isfinite _ = False"


text \<open>
  One element of a structured array (one event): its float-valued fields by name, and
  its \<^verbatim>\<open>fit_status\<close>, which the script reads from reco arrays only. An array is the list
  of its elements; \<^verbatim>\<open>np.concatenate\<close> is \<open>concat\<close>.
\<close>

record event =
  floats :: "(string \<times> pyfloat) list"
  fit_status :: int

text \<open>\<^verbatim>\<open>arr[name]\<close>: the column of a field; an unknown field name raises.\<close>

fun get_field :: "string \<Rightarrow> event list \<Rightarrow> exn + pyfloat list" where
  "get_field name [] = Inr []"
| "get_field name (ev # evs) =
     (case map_of (floats ev) name of
        None \<Rightarrow> Inl ValueError
      | Some v \<Rightarrow>
          (case get_field name evs of
             Inl e \<Rightarrow> Inl e
           | Inr vs \<Rightarrow> Inr (v # vs)))"

text \<open>
  An entry-wise operation on two one-dimensional arrays, with numpy's broadcasting: equal
  lengths, or one of the two of length 1; anything else raises \<^verbatim>\<open>ValueError\<close>.
\<close>

definition np_binop :: "('a \<Rightarrow> 'b \<Rightarrow> 'c) \<Rightarrow> 'a list \<Rightarrow> 'b list \<Rightarrow> exn + 'c list" where
  "np_binop f xs ys =
     (if length xs = length ys then Inr (map2 f xs ys)
      else if length xs = 1 then Inr (map (f (hd xs)) ys)
      else if length ys = 1 then Inr (map (\<lambda>x. f x (hd ys)) xs)
      else Inl ValueError)"

text \<open>\<^verbatim>\<open>a[mask]\<close> for a boolean mask: \<^verbatim>\<open>IndexError\<close> unless the lengths agree.\<close>

definition bool_index :: "'a list \<Rightarrow> bool list \<Rightarrow> exn + 'a list" where
  "bool_index a bmask =
     (if length bmask = length a then Inr (map fst (filter snd (zip a bmask)))
      else Inl IndexError)"

text \<open>An \<^verbatim>\<open>OrderedDict\<close> is an association list in insertion order; \<^verbatim>\<open>d[k] = v\<close>:\<close>

fun dict_set :: "'k \<Rightarrow> 'v \<Rightarrow> ('k \<times> 'v) list \<Rightarrow> ('k \<times> 'v) list" where
  "dict_set k v [] = [(k, v)]"
| "dict_set k v ((k', v') # d) = (if k' = k then (k, v) # d else (k', v') # dict_set k v d)"

text \<open>\<^verbatim>\<open>sep.join(xs)\<close>.\<close>

fun str_join :: "string \<Rightarrow> string list \<Rightarrow> string" where
  "str_join sep [] = []"
| "str_join sep [x] = x"
| "str_join sep (x # y # ys) = x @ sep @ str_join sep (y # ys)"

text \<open>Sequencing of steps that may raise, and a loop body run over a list.\<close>

definition bind_exn :: "exn + 'a \<Rightarrow> ('a \<Rightarrow> exn + 'b) \<Rightarrow> exn + 'b" where
  "bind_exn m f = (case m of Inl e \<Rightarrow> Inl e | Inr x \<Rightarrow> f x)"

fun mapM_exn :: "('a \<Rightarrow> exn + 'b) \<Rightarrow> 'a list \<Rightarrow> exn + 'b list" where
  "mapM_exn f [] = Inr []"
| "mapM_exn f (x # xs) =
     (case f x of
        Inl e \<Rightarrow> Inl e
      | Inr y \<Rightarrow> (case mapM_exn f xs of Inl e \<Rightarrow> Inl e | Inr ys \<Rightarrow> Inr (y # ys)))"

subsection \<open>The environment of the script\<close>

text \<open>
  What \<^verbatim>\<open>np.load\<close> does with a path: it returns an array, raises \<^verbatim>\<open>IOError\<close> (the only
  exception the loading loops catch) or raises something else.
\<close>

datatype 'a load_result = Loaded 'a | LoadIOError | LoadRaises exn

text \<open>
  One call of \<^verbatim>\<open>fit_cdf\<close> through the pool, as \<^verbatim>\<open>worker.get(timeout=timeout)\<close> sees
  it: a result, \<^verbatim>\<open>mp.TimeoutError\<close>, or the exception the fit raised.
\<close>

datatype 'r outcome = Done 'r | TimedOut | Raised exn

text \<open>The keyword arguments of one \<^verbatim>\<open>fit_cdf\<close> task (lines 278-287).\<close>

record 'd fit_task =
  task_x :: "pyfloat list"
  task_cdf :: "pyfloat list"
  task_distribution :: 'd
  task_x_is_data :: bool
  task_verbosity :: nat

text \<open>
  Everything the script takes from the file system, from libraries and from modules of
  the repository that are not among the sources (\<^verbatim>\<open>retro.retro_types.FitStatus\<close>,
  \<^verbatim>\<open>retro.utils.stats.weighted_percentile\<close> and \<^verbatim>\<open>fit_cdf\<close>) is a parameter. \<open>'d\<close> is
  the type of distribution objects, \<open>'r\<close> that of the result of one fit.
\<close>

record ('d, 'r) env =
  np_load :: "string \<Rightarrow> event list load_result"
  path_isdir :: "string \<Rightarrow> bool"
  path_isfile :: "string \<Rightarrow> bool"
  expanduser_expandvars :: "string \<Rightarrow> string"
  pickle_load_truth :: "string \<Rightarrow> exn + event list"
  pickle_load_recos :: "string \<Rightarrow> exn + (string \<times> event list) list"
  FitStatus_OK :: int
  weighted_percentile :: "pyfloat list \<Rightarrow> nat list \<Rightarrow> pyfloat list \<Rightarrow> exn + pyfloat list"
  np_average :: "pyfloat list \<Rightarrow> pyfloat list \<Rightarrow> exn + pyfloat"
  np_argsort :: "pyfloat list \<Rightarrow> nat list"
  np_cumsum :: "pyfloat list \<Rightarrow> pyfloat list"
  float_sub :: "pyfloat \<Rightarrow> pyfloat \<Rightarrow> pyfloat"
  float_div :: "pyfloat \<Rightarrow> pyfloat \<Rightarrow> pyfloat"
  getattr_distribution :: "string \<Rightarrow> 'd option"
  dist_name :: "'d \<Rightarrow> string"
  result_name :: "'r \<Rightarrow> string"
  cpu_count :: int
  worker_get :: "'d fit_task \<Rightarrow> real option \<Rightarrow> 'r outcome"
  sha256_hexdigest :: "string \<Rightarrow> string"

subsection \<open>Results and effects\<close>

text \<open>
  One entry of the performance summary as the loop of lines 176-206 builds it (the keys
  \<^verbatim>\<open>'reco'\<close> and \<^verbatim>\<open>'param'\<close> are the fields \<open>row_reco\<close> and \<open>row_param\<close>), and one row
  of the table \<^verbatim>\<open>extract\<close> returns, which has four more columns (lines 212-213).
\<close>

record info =
  row_reco :: string
  row_param :: string
  n_invalid :: nat
  err_mean :: pyfloat
  err_median :: pyfloat
  err_min :: pyfloat
  err_max :: pyfloat
  err_iq50 :: pyfloat
  err_iq90 :: pyfloat

record perf_row = info +
  err_absmean :: pyfloat
  err_absmedian :: pyfloat
  err_absmin :: pyfloat
  err_absmax :: pyfloat

text \<open>What is pickled, and what a run writes and starts, in order.\<close>

datatype 'r pickled =
    PRecoPerf "perf_row list"
  | PTruth "event list"
  | PRecos "(string \<times> event list) list"
  | PResults "(string \<times> 'r) list"
  | PFits "(string \<times> (string \<times> 'r) list) list"

datatype ('d, 'r) op =
    Makedirs string
  | PickleDump string "'r pickled"
  | WriteText string string
  | PoolCreate int
  | ApplyAsync "'d fit_task"

definition TRUTH_FNAME :: string where
  "TRUTH_FNAME = ''truth.pkl''"

definition RECOS_FNAME :: string where
  "RECOS_FNAME = ''recos.pkl''"


definition DISTS_HASH_DIR :: string where
  "DISTS_HASH_DIR = ''distributions_sha256''"


subsection \<open>\<^verbatim>\<open>extract\<close>: loading the samples\<close>


text \<open>
  \<open>path_proto abs_flav i\<close> stands for \<^verbatim>\<open>path_proto.format(abs_flav=abs_flav, i=i)\<close>.
\<close>

definition truth_fpath :: "(int \<Rightarrow> nat \<Rightarrow> string) \<Rightarrow> int \<Rightarrow> nat \<Rightarrow> string" where
  "truth_fpath path_proto abs_flav i = join (path_proto abs_flav i) ''truth.npy''"

definition reco_fpath :: "(int \<Rightarrow> nat \<Rightarrow> string) \<Rightarrow> int \<Rightarrow> string \<Rightarrow> nat \<Rightarrow> string" where
  "reco_fpath path_proto abs_flav reco i =
     join (path_proto abs_flav i) (''recos/'' @ reco @ ''.npy'')"








subsection \<open>\<^verbatim>\<open>extract\<close>: the performance summary\<close>

text \<open>
  Lines 181-182 of \<^verbatim>\<open>extract\<close>, which lines 378-379 of \<^verbatim>\<open>fit\<close> repeat: the error of a
  parameter, reco minus truth, and the mask of the events that count.
\<close>

definition param_err ::
  "('d, 'r) env \<Rightarrow> event list \<Rightarrow> event list \<Rightarrow> string \<Rightarrow> exn + pyfloat list" where
  "param_err E vals truth param =
     bind_exn (get_field param vals) (\<lambda>reco_col.
     bind_exn (get_field param truth) (\<lambda>truth_col.
       np_binop (float_sub E) reco_col truth_col))"

definition valid_mask :: "('d, 'r) env \<Rightarrow> event list \<Rightarrow> pyfloat list \<Rightarrow> exn + bool list" where
  "valid_mask E vals err =
     np_binop (\<and>) (map isfinite err) (map (\<lambda>ev. fit_status ev = FitStatus_OK E) vals)"







subsection \<open>\<^verbatim>\<open>extract\<close>: saving, and the whole function\<close>



subsection \<open>\<^verbatim>\<open>fit_distributions_to_data\<close>\<close>

text \<open>
  A distribution is given by its name or as an object; the argument \<^verbatim>\<open>distributions\<close>
  is one of them or an iterable of them (lines 259-267, and 341-349 of \<^verbatim>\<open>fit\<close>).
\<close>

datatype 'd dist_arg = DistName string | DistObj 'd

datatype 'd dists_arg = OneDist "'d dist_arg" | Dists "'d dist_arg list"

definition resolve_distributions :: "('d, 'r) env \<Rightarrow> 'd dists_arg \<Rightarrow> exn + 'd list" where
  "resolve_distributions E distributions =
     (let distributions' = (case distributions of OneDist d \<Rightarrow> [d] | Dists ds \<Rightarrow> ds)
      in mapM_exn
           (\<lambda>distribution.
              case distribution of
                DistName n \<Rightarrow>
                  (case getattr_distribution E n of None \<Rightarrow> Inl AttributeError | Some d \<Rightarrow> Inr d)
              | DistObj d \<Rightarrow> Inr d)
           distributions')"

text \<open>\<^verbatim>\<open>a[ind]\<close> for an array of indices.\<close>

definition take_idx :: "'a list \<Rightarrow> nat list \<Rightarrow> exn + 'a list" where
  "take_idx a ind =
     (if list_all (\<lambda>i. i < length a) ind then Inr (map (\<lambda>i. a ! i) ind) else Inl IndexError)"

text \<open>Lines 271-276: the data sorted, and the values of the empirical CDF at them.\<close>

definition cdf_values ::
  "('d, 'r) env \<Rightarrow> pyfloat list \<Rightarrow> pyfloat list \<Rightarrow> exn + pyfloat list \<times> pyfloat list" where
  "cdf_values E data weights =
     (let sortind = np_argsort E data
      in bind_exn (take_idx data sortind) (\<lambda>sorted_data.
         bind_exn (take_idx weights sortind) (\<lambda>sorted_weights.
           (let cumsum = np_cumsum E sorted_weights
            in if cumsum = [] then Inl IndexError
               else Inr (sorted_data, map (\<lambda>c. float_div E c (last cumsum)) cumsum)))))"

text \<open>Lines 295-302: the results are collected in the order of the tasks.\<close>

fun gather :: "'r outcome list \<Rightarrow> exn + 'r list" where
  "gather [] = Inr []"
| "gather (Done r # os) = (case gather os of Inl e \<Rightarrow> Inl e | Inr rs \<Rightarrow> Inr (r # rs))"
| "gather (TimedOut # os) = gather os"
| "gather (Raised e # os) = Inl e"

text \<open>
  Lines 308-312: the inner loop runs over \<^verbatim>\<open>results\<close> by position while it removes
  from it; \<^verbatim>\<open>results.remove(result)\<close> removes the first entry equal to \<^verbatim>\<open>result\<close>.
\<close>

function collect_named ::
  "('r \<Rightarrow> string) \<Rightarrow> string \<Rightarrow> 'r list \<Rightarrow> nat \<Rightarrow> (string \<times> 'r) list
     \<Rightarrow> 'r list \<times> (string \<times> 'r) list" where
  "collect_named nm dname results i results_d =
     (if i < length results then
        (if nm (results ! i) = dname
         then collect_named nm dname (remove1 (results ! i) results) (Suc i)
                (dict_set dname (results ! i) results_d)
         else collect_named nm dname results (Suc i) results_d)
      else (results, results_d))"
  by pat_completeness auto
termination
  by (relation "measure (\<lambda>(nm, dname, results, i, results_d). length results - i)")
     (auto simp: length_remove1)

definition build_results_d :: "('d, 'r) env \<Rightarrow> 'd list \<Rightarrow> 'r list \<Rightarrow> (string \<times> 'r) list" where
  "build_results_d E distributions results =
     snd (foldl (\<lambda>(results, results_d) distribution.
                   collect_named (result_name E) (dist_name E distribution) results 0 results_d)
            (results, []) distributions)"

text \<open>
  The function returns \<^verbatim>\<open>results_d\<close> or raises; with either comes what it started and
  wrote. Assertions are enabled, as they are unless the interpreter is run with
  \<^verbatim>\<open>-O\<close>: the assertion of line 257 evaluates \<^verbatim>\<open>outfile.endsiwth\<close>, an attribute no
  string has. A pool of fewer than one process cannot be made (\<^verbatim>\<open>mp.Pool\<close> raises
  \<^verbatim>\<open>ValueError\<close>).
\<close>

definition fit_distributions_to_data ::
  "('d, 'r) env \<Rightarrow> pyfloat list \<Rightarrow> pyfloat list \<Rightarrow> 'd dists_arg \<Rightarrow> string option \<Rightarrow> int option
     \<Rightarrow> real option \<Rightarrow> ('d, 'r) op list \<times> (exn + (string \<times> 'r) list)" where
  "fit_distributions_to_data E data weights distributions0 outfile n_procs0 timeout =
     (if outfile \<noteq> None then ([], Inl AttributeError)
      else
        case resolve_distributions E distributions0 of
          Inl e \<Rightarrow> ([], Inl e)
        | Inr distributions \<Rightarrow>
            (case cdf_values E data weights of
               Inl e \<Rightarrow> ([], Inl e)
             | Inr (sorted_data, cdf) \<Rightarrow>
                 (let kwds = map (\<lambda>d. \<lparr> task_x = sorted_data, task_cdf = cdf,
                                        task_distribution = d, task_x_is_data = True,
                                        task_verbosity = 1 \<rparr>) distributions;
                      n_procs1 = (case n_procs0 of None \<Rightarrow> cpu_count E | Some n \<Rightarrow> n);
                      n_procs = min n_procs1 (int (length distributions))
                  in if n_procs < 1 then ([], Inl ValueError)
                     else
                       (let started = PoolCreate n_procs # map ApplyAsync kwds
                        in case gather (map (\<lambda>k. worker_get E k timeout) kwds) of
                             Inl e \<Rightarrow> (started, Inl e)
                           | Inr results \<Rightarrow>
                               if length results = 0 then (started, Inl ValueError)
                               else
                                 (let results_d = build_results_d E distributions results
                                  in case outfile of
                                       None \<Rightarrow> (started, Inr results_d)
                                     | Some f \<Rightarrow>
                                         (started @ [PickleDump f (PResults results_d)],
                                          Inr results_d))))))"

subsection \<open>\<^verbatim>\<open>fit\<close>\<close>

text \<open>The argument \<^verbatim>\<open>params\<close>: one string, or an iterable of strings (lines 338-339).\<close>

datatype params_arg = OneParam string | Params "string list"

text \<open>\<^verbatim>\<open>d[key]\<close> of a dictionary.\<close>

definition dict_get :: "('k \<times> 'v) list \<Rightarrow> 'k \<Rightarrow> exn + 'v" where
  "dict_get d k = (case map_of d k of None \<Rightarrow> Inl KeyError | Some v \<Rightarrow> Inr v)"

text \<open>
  Lines 378-392: the masked errors and weights of one parameter, handed to
  \<^verbatim>\<open>fit_distributions_to_data\<close> with \<^verbatim>\<open>outfile=None\<close> and \<^verbatim>\<open>n_procs=None\<close>.
\<close>

definition fit_param ::
  "('d, 'r) env \<Rightarrow> (string \<times> event list) list \<Rightarrow> event list \<Rightarrow> string \<Rightarrow> 'd list \<Rightarrow> real option
     \<Rightarrow> string \<Rightarrow> ('d, 'r) op list \<times> (exn + (string \<times> 'r) list)" where
  "fit_param E reco_vals truth reco distributions timeout param =
     (case
        bind_exn (dict_get reco_vals reco) (\<lambda>vals.
        bind_exn (param_err E vals truth param) (\<lambda>err.
        bind_exn (valid_mask E vals err) (\<lambda>bmask.
        bind_exn (bool_index err bmask) (\<lambda>valid_err.
        bind_exn (get_field ''weight'' truth) (\<lambda>weights.
        bind_exn (bool_index weights bmask) (\<lambda>valid_wts.
          Inr (valid_err, valid_wts)))))))
      of
        Inl e \<Rightarrow> ([], Inl e)
      | Inr (valid_err, valid_wts) \<Rightarrow>
          fit_distributions_to_data E valid_err valid_wts (Dists (map DistObj distributions))
            None None timeout)"

text \<open>Lines 376-395: the loop over the parameters; \<open>fits\<close> is the dictionary so far.\<close>

fun fit_params ::
  "('d, 'r) env \<Rightarrow> (string \<times> event list) list \<Rightarrow> event list \<Rightarrow> string \<Rightarrow> 'd list \<Rightarrow> real option
     \<Rightarrow> string list \<Rightarrow> (string \<times> (string \<times> 'r) list) list
     \<Rightarrow> ('d, 'r) op list \<times> (exn + (string \<times> (string \<times> 'r) list) list)" where
  "fit_params E reco_vals truth reco distributions timeout [] fits = ([], Inr fits)"
| "fit_params E reco_vals truth reco distributions timeout (param # params) fits =
     (case fit_param E reco_vals truth reco distributions timeout param of
        (ops, Inl e) \<Rightarrow> (ops, Inl e)
      | (ops, Inr results_d) \<Rightarrow>
          (case fit_params E reco_vals truth reco distributions timeout params
                  (dict_set param results_d fits) of
             (ops', r) \<Rightarrow> (ops @ ops', r)))"

text \<open>Lines 397-403: the name of the file the fits are written to.\<close>

definition fit_info_fname :: "string \<Rightarrow> string list \<Rightarrow> string \<Rightarrow> string" where
  "fit_info_fname reco params dists_hash =
     ''fit_info__reco='' @ reco @ ''__params='' @ str_join '','' params
       @ ''__dists_sha256='' @ dists_hash @ ''.pkl''"

text \<open>
  The whole function: what it wrote and started, and the exception it raised, if any.
  The messages written to \<^verbatim>\<open>stdout\<close> are left out.
\<close>

definition fit ::
  "('d, 'r) env \<Rightarrow> string \<Rightarrow> string \<Rightarrow> params_arg \<Rightarrow> 'd dists_arg \<Rightarrow> real option
     \<Rightarrow> ('d, 'r) op list \<times> exn option" where
  "fit E datadir0 reco params0 distributions0 timeout =
     (let datadir = expanduser_expandvars E datadir0
      in if \<not> path_isdir E datadir then ([], Some AssertionError)
         else
           (let params1 = (case params0 of OneParam p \<Rightarrow> [p] | Params ps \<Rightarrow> ps)
            in case resolve_distributions E distributions0 of
                 Inl e \<Rightarrow> ([], Some e)
               | Inr distributions \<Rightarrow>
                   (let distribution_names = sort (remdups (map (dist_name E) distributions));
                        params = sort params1;
                        dist_str = str_join '' '' distribution_names;
                        dists_hash = take 10 (sha256_hexdigest E dist_str);
                        hash_dirpath = join datadir DISTS_HASH_DIR;
                        ops1 = (if \<not> path_isdir E hash_dirpath then [Makedirs hash_dirpath]
                                else []);
                        hash_fpath = join hash_dirpath dists_hash;
                        ops2 = (if \<not> path_isfile E hash_fpath
                                then [WriteText hash_fpath
                                        (dists_hash @ ''  '' @ dist_str @ [CHR 0x0A])]
                                else [])
                    in case pickle_load_truth E (join datadir TRUTH_FNAME) of
                         Inl e \<Rightarrow> (ops1 @ ops2, Some e)
                       | Inr truth \<Rightarrow>
                           (case pickle_load_recos E (join datadir RECOS_FNAME) of
                              Inl e \<Rightarrow> (ops1 @ ops2, Some e)
                            | Inr reco_vals \<Rightarrow>
                                (case fit_params E reco_vals truth reco distributions timeout
                                        params [] of
                                   (ops3, Inl e) \<Rightarrow> (ops1 @ ops2 @ ops3, Some e)
                                 | (ops3, Inr fits) \<Rightarrow>
                                     (let outfpath =
                                            join datadir (fit_info_fname reco params dists_hash)
                                      in (ops1 @ ops2 @ ops3 @ [PickleDump outfpath (PFits fits)],
                                          None)))))))"

subsection \<open>The default path prototype, and an environment for the closed examples\<close>

text \<open>
  \<^verbatim>\<open>PATH_PROTO.format(abs_flav=abs_flav, i=i)\<close> for the \<^verbatim>\<open>PATH_PROTO\<close> of line 73: the
  flavour in decimal (\<^verbatim>\<open>{abs_flav:d}\<close>), the index in decimal, padded with zeros to six
  digits (\<^verbatim>\<open>{i:06d}\<close>).
\<close>

function dec :: "nat \<Rightarrow> string" where
  "dec n = (if n < 10 then [''0123456789'' ! n] else dec (n div 10) @ [''0123456789'' ! (n mod 10)])"
  by pat_completeness auto
termination
  by (relation "measure (\<lambda>n. n)") auto

definition format_d :: "int \<Rightarrow> string" where
  "format_d n = (if n < 0 then ''-'' @ dec (nat (- n)) else dec (nat n))"

definition format_06d :: "nat \<Rightarrow> string" where
  "format_06d i = replicate (6 - length (dec i)) CHR ''0'' @ dec i"

definition PATH_PROTO :: "int \<Rightarrow> nat \<Rightarrow> string" where
  "PATH_PROTO abs_flav i =
     ''/data/icecube/sim/ic86/i3/oscNext/pass2/genie/level5/'' @ format_d abs_flav
       @ ''9002/oscNext_genie_level5_pass2.'' @ format_d abs_flav @ ''9002.'' @ format_06d i"

text \<open>
  Events for the examples: a truth event with its \<^verbatim>\<open>x\<close> and weight 1, and a reco event with
  its \<^verbatim>\<open>x\<close> and fit status.
\<close>

definition truth_ev :: "real \<Rightarrow> event" where
  "truth_ev x = \<lparr> floats = [(''x'', Fin x), (''weight'', Fin 1)], fit_status = 0 \<rparr>"

definition reco_ev :: "pyfloat \<Rightarrow> int \<Rightarrow> event" where
  "reco_ev x status = \<lparr> floats = [(''x'', x)], fit_status = status \<rparr>"

text \<open>
  The sample files of the examples. Flavour 12 has samples 0 and 1, and one more at
  index 3, after a gap; flavours 14 and 16 have sample 0. The one reco is \<^verbatim>\<open>LineFit\<close>.
\<close>

definition demo_files :: "(string \<times> event list) list" where
  "demo_files =
     [(truth_fpath PATH_PROTO 12 0, [truth_ev 1, truth_ev 2]),
      (truth_fpath PATH_PROTO 12 1, [truth_ev 3]),
      (truth_fpath PATH_PROTO 12 3, [truth_ev 9]),
      (truth_fpath PATH_PROTO 14 0, [truth_ev 4]),
      (truth_fpath PATH_PROTO 16 0, [truth_ev 5]),
      (reco_fpath PATH_PROTO 12 ''LineFit'' 0, [reco_ev (Fin 2) 0, reco_ev NaN 0]),
      (reco_fpath PATH_PROTO 12 ''LineFit'' 1, [reco_ev (Fin 5) 30]),
      (reco_fpath PATH_PROTO 12 ''LineFit'' 3, [reco_ev (Fin 9) 0]),
      (reco_fpath PATH_PROTO 14 ''LineFit'' 0, [reco_ev (Fin 7) 0]),
      (reco_fpath PATH_PROTO 16 ''LineFit'' 0, [reco_ev PInf 0])]"

text \<open>
  The environment of the examples. The library routines are stand-ins (the claims do not
  depend on what they compute): distributions and fit results are their names, every fit
  returns in time, and the data directory \<^verbatim>\<open>data\<close> holds what \<^verbatim>\<open>extract\<close> wrote. Its
  subtraction is that of double precision without the rounding: the difference of two
  numbers is infinite from \<open>2 ^ 1024\<close> on (\<open>DBL_OVERFLOW\<close>, written out in decimal).
\<close>

definition DBL_OVERFLOW :: real where
  "DBL_OVERFLOW = 179769313486231590772930519078902473361797697894230657273430081157732675805500963132708477322407536021120113879871393357658789768814416622492847430639474124377767893424865485276302219601246094119453082952085005768838150682342462881473913110540827237163350510684586298239947245938479716304835356329624224137216"

fun demo_sub :: "pyfloat \<Rightarrow> pyfloat \<Rightarrow> pyfloat" where
  "demo_sub NaN _ = NaN"
| "demo_sub _ NaN = NaN"
| "demo_sub (Fin a) (Fin b) =
     (if DBL_OVERFLOW \<le> a - b then PInf
      else if a - b \<le> - DBL_OVERFLOW then NInf
      else Fin (a - b))"
| "demo_sub (Fin _) PInf = NInf"
| "demo_sub (Fin _) NInf = PInf"
| "demo_sub PInf PInf = NaN"
| "demo_sub PInf _ = PInf"
| "demo_sub NInf NInf = NaN"
| "demo_sub NInf _ = NInf"

definition demo_env :: "(string, string) env" where
  "demo_env =
     \<lparr> np_load = (\<lambda>p. case map_of demo_files p of None \<Rightarrow> LoadIOError | Some a \<Rightarrow> Loaded a),
       path_isdir = (\<lambda>p. p = ''data''),
       path_isfile = (\<lambda>p. False),
       expanduser_expandvars = (\<lambda>p. p),
       pickle_load_truth = (\<lambda>p. if p = ''data/truth.pkl''
                                  then Inr [truth_ev 1, truth_ev 2, truth_ev 3, truth_ev 4,
                                            truth_ev 5]
                                  else Inl IOError),
       pickle_load_recos = (\<lambda>p. if p = ''data/recos.pkl''
                                  then Inr [(''LineFit'', [reco_ev (Fin 2) 0, reco_ev NaN 0,
                                                           reco_ev (Fin 5) 30, reco_ev (Fin 7) 0,
                                                           reco_ev PInf 0])]
                                  else Inl IOError),
       FitStatus_OK = 0,
       weighted_percentile = (\<lambda>a q w. Inr (map (\<lambda>k. Fin (real k)) q)),
       np_average = (\<lambda>a w. Inr (Fin (real (length a)))),
       np_argsort = (\<lambda>a. [0..<length a]),
       np_cumsum = (\<lambda>a. map (\<lambda>i. Fin (real (Suc i))) [0..<length a]),
       float_sub = demo_sub,
       float_div = (\<lambda>a b. case (a, b) of (Fin x, Fin y) \<Rightarrow> Fin (x / y) | _ \<Rightarrow> NaN),
       getattr_distribution = (\<lambda>n. if n \<in> set [''cauchy'', ''norm''] then Some n else None),
       dist_name = (\<lambda>d. d),
       result_name = (\<lambda>r. r),
       cpu_count = 4,
       worker_get = (\<lambda>k timeout. Done (task_distribution k)),
       sha256_hexdigest = (\<lambda>s. ''9f86d081884c7d659a2feaa0c55ad015'') \<rparr>"


subsection \<open>The claims about \<^verbatim>\<open>fit_distributions_to_data\<close>\<close>

text \<open>
  Claim C8. Whatever file name is passed as \<^verbatim>\<open>outfile\<close>, the call raises
  \<^verbatim>\<open>AttributeError\<close> at the assertion of line 257, before it has started a pool, submitted
  a task or written a file. So a call that returns a result was made with
  \<^verbatim>\<open>outfile=None\<close>.
\<close>

theorem outfile_always_raises:
  "fit_distributions_to_data E data weights distributions (Some outfile) n_procs timeout
     = ([], Inl AttributeError)"
  by (simp add: fit_distributions_to_data_def)

theorem outfile_always_raises_witness:
  "fit_distributions_to_data demo_env [Fin 1, Fin 2] [Fin 1, Fin 1]
     (Dists [DistName ''norm'', DistName ''cauchy'']) (Some ''fits.pkl'') None None
     = ([], Inl AttributeError)"
  by (rule outfile_always_raises)

text \<open>The tasks submitted to the pool, in order.\<close>

fun submitted :: "('d, 'r) op list \<Rightarrow> 'd fit_task list" where
  "submitted [] = []"
| "submitted (ApplyAsync k # ops) = k # submitted ops"
| "submitted (x # ops) = submitted ops"

lemma submitted_apply: "submitted (map ApplyAsync ks) = ks"
  by (induction ks) simp_all




subsection \<open>Masks and loops that may raise\<close>


lemma bool_index_nths:
  "length bmask = length a \<Longrightarrow>
   map fst (filter snd (zip a bmask)) = nths a {i. i < length a \<and> bmask ! i}"
proof (induction a arbitrary: bmask)
  case Nil
  then show ?case by simp
next
  case (Cons x a)
  then obtain b bs where bm: "bmask = b # bs" and len: "length bs = length a"
    by (cases bmask) auto
  have s: "{j. Suc j \<in> {i. i < length (x # a) \<and> (b # bs) ! i}} = {i. i < length a \<and> bs ! i}"
    by auto
  have z: "(0 \<in> {i. i < length (x # a) \<and> (b # bs) ! i}) = b"
    by simp
  show ?case
    unfolding bm nths_Cons s z using Cons.IH[OF len] by simp
qed

lemma bool_index_eq:
  "length bmask = length a \<Longrightarrow> bool_index a bmask = Inr (nths a {i. i < length a \<and> bmask ! i})"
  by (simp add: bool_index_def bool_index_nths)

lemma bool_index_Inr:
  assumes "bool_index a bmask = Inr b"
  shows "length bmask = length a \<and> b = nths a {i. i < length a \<and> bmask ! i}"
proof -
  have l: "length bmask = length a"
    using assms by (auto simp: bool_index_def split: if_splits)
  with assms bool_index_eq[OF l] show ?thesis by simp
qed

lemma nths_pred:
  "nths xs {i. i < length xs \<and> P i} = map fst (filter snd (zip xs (map P [0..<length xs])))"
proof -
  have l: "length (map P [0..<length xs]) = length xs"
    by simp
  have "{i. i < length xs \<and> map P [0..<length xs] ! i} = {i. i < length xs \<and> P i}"
    by auto
  then show ?thesis
    using bool_index_nths[OF l] by simp
qed



lemma bind_exn_Inr: "bind_exn m f = Inr y \<Longrightarrow> \<exists>x. m = Inr x \<and> f x = Inr y"
  by (cases m) (simp_all add: bind_exn_def)

lemma mapM_exn_all2:
  "mapM_exn f xs = Inr ys \<Longrightarrow> list_all2 (\<lambda>x y. f x = Inr y) xs ys"
proof (induction xs arbitrary: ys)
  case Nil
  then show ?case by simp
next
  case (Cons x xs)
  then show ?case
    by (auto split: sum.splits)
qed

lemma mapM_exn_length: "mapM_exn f xs = Inr ys \<Longrightarrow> length ys = length xs"
  using mapM_exn_all2[of f xs ys] by (simp add: list_all2_lengthD)

lemma mapM_exn_mem:
  assumes "mapM_exn f xs = Inr ys" and "y \<in> set ys"
  shows "\<exists>x \<in> set xs. f x = Inr y"
proof -
  from mapM_exn_all2[OF assms(1)] have a: "list_all2 (\<lambda>x y. f x = Inr y) xs ys" .
  from assms(2) obtain n where n: "n < length ys" "ys ! n = y"
    by (auto simp: in_set_conv_nth)
  from a n have "f (xs ! n) = Inr y" "n < length xs"
    by (auto simp: list_all2_conv_all_nth)
  then show ?thesis
    using nth_mem by blast
qed

lemma mapM_exn_image:
  assumes "mapM_exn f xs = Inr ys" and "x \<in> set xs"
  shows "\<exists>y \<in> set ys. f x = Inr y"
proof -
  from mapM_exn_all2[OF assms(1)] have a: "list_all2 (\<lambda>x y. f x = Inr y) xs ys" .
  from assms(2) obtain n where n: "n < length xs" "xs ! n = x"
    by (auto simp: in_set_conv_nth)
  from a n have "f x = Inr (ys ! n)" "n < length ys"
    by (auto simp: list_all2_conv_all_nth)
  then show ?thesis
    using nth_mem by blast
qed


subsection \<open>The entries of the summary\<close>


text \<open>The errors and the mask of lines 181-182 (and 378-379), when they are computed.\<close>

lemma masked_Inr:
  assumes "bind_exn (param_err E vals truth param) (\<lambda>err.
           bind_exn (valid_mask E vals err) (\<lambda>bmask.
           bind_exn (bool_index err bmask) (\<lambda>valid_err. k err bmask valid_err))) = Inr y"
  shows "\<exists>reco_col truth_col err bmask.
           get_field param vals = Inr reco_col \<and> get_field param truth = Inr truth_col \<and>
           np_binop (float_sub E) reco_col truth_col = Inr err \<and>
           np_binop (\<and>) (map isfinite err) (map (\<lambda>ev. fit_status ev = FitStatus_OK E) vals)
             = Inr bmask \<and>
           length bmask = length err \<and>
           k err bmask (nths err {i. i < length err \<and> bmask ! i}) = Inr y"
proof -
  from bind_exn_Inr[OF assms]
  obtain err where err: "param_err E vals truth param = Inr err"
    and r1: "bind_exn (valid_mask E vals err) (\<lambda>bmask.
           bind_exn (bool_index err bmask) (\<lambda>valid_err. k err bmask valid_err)) = Inr y"
    by blast
  from bind_exn_Inr[OF err[unfolded param_err_def]]
  obtain reco_col where rc: "get_field param vals = Inr reco_col"
    and e2: "bind_exn (get_field param truth) (\<lambda>truth_col.
               np_binop (float_sub E) reco_col truth_col) = Inr err"
    by blast
  from bind_exn_Inr[OF e2]
  obtain truth_col where tc: "get_field param truth = Inr truth_col"
    and sub: "np_binop (float_sub E) reco_col truth_col = Inr err"
    by blast
  from bind_exn_Inr[OF r1]
  obtain bmask where bm: "valid_mask E vals err = Inr bmask"
    and r2: "bind_exn (bool_index err bmask) (\<lambda>valid_err. k err bmask valid_err) = Inr y"
    by blast
  from bind_exn_Inr[OF r2]
  obtain a where a: "bool_index err bmask = Inr a" and r3: "k err bmask a = Inr y"
    by blast
  from bool_index_Inr[OF a] have lb: "length bmask = length err"
    and a': "a = nths err {i. i < length err \<and> bmask ! i}"
    by simp_all
  show ?thesis
    using rc tc sub bm[unfolded valid_mask_def] lb r3[unfolded a'] by blast
qed











subsection \<open>The claim about the rows of the summary\<close>





subsection \<open>The steps of \<^verbatim>\<open>fit\<close>\<close>

lemma map_of_dict_set: "map_of (dict_set k v d) = (map_of d)(k \<mapsto> v)"
  by (induction d) auto

lemma fit_param_Inr:
  assumes "fit_param E reco_vals truth reco distributions timeout param = (started, Inr results_d)"
  shows "\<exists>vals reco_col truth_col weights err bmask.
           dict_get reco_vals reco = Inr vals \<and>
           get_field param vals = Inr reco_col \<and> get_field param truth = Inr truth_col \<and>
           get_field ''weight'' truth = Inr weights \<and>
           np_binop (float_sub E) reco_col truth_col = Inr err \<and>
           np_binop (\<and>) (map isfinite err) (map (\<lambda>ev. fit_status ev = FitStatus_OK E) vals)
             = Inr bmask \<and>
           length bmask = length err \<and> length weights = length err \<and>
           fit_distributions_to_data E (nths err {i. i < length err \<and> bmask ! i})
             (nths weights {i. i < length err \<and> bmask ! i})
             (Dists (map DistObj distributions)) None None timeout = (started, Inr results_d)"
proof -
  let ?m = "bind_exn (dict_get reco_vals reco) (\<lambda>vals.
        bind_exn (param_err E vals truth param) (\<lambda>err.
        bind_exn (valid_mask E vals err) (\<lambda>bmask.
        bind_exn (bool_index err bmask) (\<lambda>valid_err.
        bind_exn (get_field ''weight'' truth) (\<lambda>weights.
        bind_exn (bool_index weights bmask) (\<lambda>valid_wts.
          Inr (valid_err, valid_wts)))))))"
  obtain valid_err valid_wts where m: "?m = Inr (valid_err, valid_wts)"
    and f: "fit_distributions_to_data E valid_err valid_wts (Dists (map DistObj distributions))
              None None timeout = (started, Inr results_d)"
    using assms unfolding fit_param_def by (cases ?m) auto
  from bind_exn_Inr[OF m]
  obtain vals where v: "dict_get reco_vals reco = Inr vals"
    and m1: "bind_exn (param_err E vals truth param) (\<lambda>err.
        bind_exn (valid_mask E vals err) (\<lambda>bmask.
        bind_exn (bool_index err bmask) (\<lambda>valid_err.
        bind_exn (get_field ''weight'' truth) (\<lambda>weights.
        bind_exn (bool_index weights bmask) (\<lambda>valid_wts.
          Inr (valid_err, valid_wts)))))) = Inr (valid_err, valid_wts)"
    by blast
  from masked_Inr[OF m1]
  obtain reco_col truth_col err bmask where
        rc: "get_field param vals = Inr reco_col" and tc: "get_field param truth = Inr truth_col"
    and sub: "np_binop (float_sub E) reco_col truth_col = Inr err"
    and bm: "np_binop (\<and>) (map isfinite err) (map (\<lambda>ev. fit_status ev = FitStatus_OK E) vals)
             = Inr bmask"
    and lb: "length bmask = length err"
    and m2: "bind_exn (get_field ''weight'' truth) (\<lambda>weights.
        bind_exn (bool_index weights bmask) (\<lambda>valid_wts.
          Inr (nths err {i. i < length err \<and> bmask ! i}, valid_wts))) = Inr (valid_err, valid_wts)"
    by blast
  from bind_exn_Inr[OF m2]
  obtain weights where w: "get_field ''weight'' truth = Inr weights"
    and m3: "bind_exn (bool_index weights bmask) (\<lambda>valid_wts.
          Inr (nths err {i. i < length err \<and> bmask ! i}, valid_wts)) = Inr (valid_err, valid_wts)"
    by blast
  from bind_exn_Inr[OF m3]
  obtain w' where bw: "bool_index weights bmask = Inr w'"
    and e: "(Inr (nths err {i. i < length err \<and> bmask ! i}, w') :: exn + _) = Inr (valid_err, valid_wts)"
    by blast
  from bool_index_Inr[OF bw] lb have lw: "length weights = length err"
    and w'': "w' = nths weights {i. i < length err \<and> bmask ! i}"
    by simp_all
  from e w'' have "valid_err = nths err {i. i < length err \<and> bmask ! i}"
    "valid_wts = nths weights {i. i < length err \<and> bmask ! i}"
    by simp_all
  with f v rc tc w sub bm lb lw show ?thesis
    by blast
qed

lemma fit_params_Inr:
  "fit_params E reco_vals truth reco distributions timeout params fits = (ops, Inr out) \<Longrightarrow>
   (\<forall>param \<in> set params. \<exists>started results_d before after.
       fit_param E reco_vals truth reco distributions timeout param = (started, Inr results_d) \<and>
       map_of out param = Some results_d \<and> ops = before @ started @ after) \<and>
   (\<forall>k. k \<notin> set params \<longrightarrow> map_of out k = map_of fits k)"
proof (induction params arbitrary: fits ops)
  case Nil
  then show ?case by simp
next
  case (Cons p params)
  obtain ops1 r1 where fp: "fit_param E reco_vals truth reco distributions timeout p = (ops1, r1)"
    by (cases "fit_param E reco_vals truth reco distributions timeout p")
  obtain rd where r1: "r1 = Inr rd"
    using Cons.prems fp by (cases r1) auto
  obtain ops2 r2 where rest: "fit_params E reco_vals truth reco distributions timeout params
                  (dict_set p rd fits) = (ops2, r2)"
    by (cases "fit_params E reco_vals truth reco distributions timeout params (dict_set p rd fits)")
  have o: "ops = ops1 @ ops2" and r2: "r2 = Inr out"
    using Cons.prems fp r1 rest by simp_all
  note IH = Cons.IH[OF rest[unfolded r2]]
  have out: "map_of out k = map_of (dict_set p rd fits) k" if "k \<notin> set params" for k
    using IH that by blast
  have a: "\<exists>started results_d before after.
       fit_param E reco_vals truth reco distributions timeout param = (started, Inr results_d) \<and>
       map_of out param = Some results_d \<and> ops = before @ started @ after"
    if "param \<in> set (p # params)" for param
  proof (cases "param \<in> set params")
    case True
    with IH obtain started results_d before after where
      "fit_param E reco_vals truth reco distributions timeout param = (started, Inr results_d)"
      "map_of out param = Some results_d" "ops2 = before @ started @ after"
      by blast
    then have "fit_param E reco_vals truth reco distributions timeout param = (started, Inr results_d) \<and>
       map_of out param = Some results_d \<and> ops = (ops1 @ before) @ started @ after"
      using o by simp
    then show ?thesis by blast
  next
    case False
    with that have pp: "param = p" by simp
    have "map_of out p = Some rd"
      using out[of p] False pp by (simp add: map_of_dict_set)
    then have "fit_param E reco_vals truth reco distributions timeout param = (ops1, Inr rd) \<and>
       map_of out param = Some rd \<and> ops = [] @ ops1 @ ops2"
      using fp r1 o pp by simp
    then show ?thesis by blast
  qed
  have b: "map_of out k = map_of fits k" if "k \<notin> set (p # params)" for k
    using out[of k] that by (simp add: map_of_dict_set)
  from a b show ?case by blast
qed

lemma fit_returns:
  assumes "fit E datadir0 reco params0 distributions0 timeout = (ops, None)"
  shows "\<exists>ds truth reco_vals ops12 ops3 fits.
           path_isdir E (expanduser_expandvars E datadir0) \<and>
           resolve_distributions E distributions0 = Inr ds \<and>
           pickle_load_truth E (join (expanduser_expandvars E datadir0) TRUTH_FNAME) = Inr truth \<and>
           pickle_load_recos E (join (expanduser_expandvars E datadir0) RECOS_FNAME)
             = Inr reco_vals \<and>
           fit_params E reco_vals truth reco ds timeout
             (sort (case params0 of OneParam p \<Rightarrow> [p] | Params ps \<Rightarrow> ps)) [] = (ops3, Inr fits) \<and>
           set ops12 \<subseteq>
             {Makedirs (join (expanduser_expandvars E datadir0) DISTS_HASH_DIR)} \<union>
             {x. \<exists>f s. x = WriteText f s} \<and>
           ops = ops12 @ ops3 @
             [PickleDump
                (join (expanduser_expandvars E datadir0)
                   (fit_info_fname reco
                      (sort (case params0 of OneParam p \<Rightarrow> [p] | Params ps \<Rightarrow> ps))
                      (take 10 (sha256_hexdigest E
                         (str_join '' '' (sort (remdups (map (dist_name E) ds))))))))
                (PFits fits)]"
proof -
  let ?datadir = "expanduser_expandvars E datadir0"
  have isd: "path_isdir E ?datadir"
    using assms by (auto simp: fit_def Let_def split: if_splits)
  obtain ds where ds: "resolve_distributions E distributions0 = Inr ds"
    using assms isd by (cases "resolve_distributions E distributions0") (auto simp: fit_def Let_def)
  obtain truth where tr: "pickle_load_truth E (join ?datadir TRUTH_FNAME) = Inr truth"
    using assms isd ds
    by (cases "pickle_load_truth E (join ?datadir TRUTH_FNAME)") (auto simp: fit_def Let_def)
  obtain reco_vals where rv: "pickle_load_recos E (join ?datadir RECOS_FNAME) = Inr reco_vals"
    using assms isd ds tr
    by (cases "pickle_load_recos E (join ?datadir RECOS_FNAME)") (auto simp: fit_def Let_def)
  let ?params = "sort (case params0 of OneParam p \<Rightarrow> [p] | Params ps \<Rightarrow> ps)"
  obtain ops3 r3 where fp: "fit_params E reco_vals truth reco ds timeout ?params [] = (ops3, r3)"
    by (cases "fit_params E reco_vals truth reco ds timeout ?params []")
  obtain fits where r3: "r3 = Inr fits"
    using assms isd ds tr rv fp by (cases r3) (auto simp: fit_def Let_def)
  let ?hash = "take 10 (sha256_hexdigest E (str_join '' '' (sort (remdups (map (dist_name E) ds)))))"
  let ?ops1 = "if \<not> path_isdir E (join ?datadir DISTS_HASH_DIR)
               then [Makedirs (join ?datadir DISTS_HASH_DIR)] else []"
  let ?ops2 = "if \<not> path_isfile E (join (join ?datadir DISTS_HASH_DIR) ?hash)
               then [WriteText (join (join ?datadir DISTS_HASH_DIR) ?hash)
                       (?hash @ ''  '' @ str_join '' '' (sort (remdups (map (dist_name E) ds)))
                          @ [CHR 0x0A])]
               else []"
  have ops: "ops = (?ops1 @ ?ops2) @ ops3 @
               [PickleDump (join ?datadir (fit_info_fname reco ?params ?hash)) (PFits fits)]"
    using assms isd ds tr rv fp r3 by (simp add: fit_def Let_def)
  have s: "set (?ops1 @ ?ops2) \<subseteq>
             {Makedirs (join ?datadir DISTS_HASH_DIR)} \<union> {x. \<exists>f s. x = WriteText f s}"
    by auto
  show ?thesis
    using isd ds tr rv fp[unfolded r3] s ops by blast
qed

end
